theory Spec2Isabelle
  imports Complex_Main "HOL-Library.AList"
begin

section \<open>Records, values and exceptions\<close>

text \<open>
  A record of the pipeline is a Python dict from field names to scalars. The scalars are
  \<open>None\<close>, the float NaN (what pandas writes into a cell whose key is missing), finite
  numbers (Python ints and finite floats, which compare equal when they denote the same
  number, so both are one constructor), strings and booleans. A string is the list of its
  code points, each below 256 (Latin-1). Infinite floats, integers beyond 64 bits and
  characters beyond U+00FF are outside the model.
\<close>

datatype valor = Nulo | NaN | Num rat | Texto string | Booleano bool

type_synonym registro = "(string \<times> valor) list"

datatype clase_excepcion =
    ErrorExtraccion | ErrorTransformacion | ErrorCarga | ErrorValidacion
  | ErrorConfiguracion | KeyError | ValueError | OtraExcepcion

text \<open>An instance of Python's \<open>Exception\<close>: its class and the text \<open>str(e)\<close> gives.\<close>

datatype excepcion = Excepcion clase_excepcion string

fun clase :: "excepcion \<Rightarrow> clase_excepcion" where
  "clase (Excepcion c m) = c"

fun str_e :: "excepcion \<Rightarrow> string" where
  "str_e (Excepcion c m) = m"

section \<open>The pandas operations the code calls\<close>

datatype dtype = DNumerico | DBooleano | DObjeto

text \<open>
  A DataFrame: its columns in order, each with its dtype (\<open>int64\<close> and \<open>float64\<close> are
  \<open>DNumerico\<close>: the code never tells them apart), and its rows, each row a record that
  holds every column in column order.
\<close>

record dataframe =
  columnas :: "(string \<times> dtype) list"
  filas :: "registro list"

fun isnull :: "valor \<Rightarrow> bool" where
  "isnull Nulo = True"
| "isnull NaN = True"
| "isnull v = False"

fun es_num :: "valor \<Rightarrow> bool" where
  "es_num (Num x) = True"
| "es_num v = False"

fun es_texto :: "valor \<Rightarrow> bool" where
  "es_texto (Texto t) = True"
| "es_texto v = False"

fun es_booleano :: "valor \<Rightarrow> bool" where
  "es_booleano (Booleano b) = True"
| "es_booleano v = False"

fun num_de :: "valor \<Rightarrow> rat option" where
  "num_de (Num x) = Some x"
| "num_de v = None"

definition celda :: "registro \<Rightarrow> string \<Rightarrow> valor" where
  "celda r c = (case map_of r c of None \<Rightarrow> NaN | Some v \<Rightarrow> v)"

fun unicos :: "'a list \<Rightarrow> 'a list \<Rightarrow> 'a list" where
  "unicos vistos [] = []"
| "unicos vistos (x # xs) =
     (if List.member vistos x then unicos vistos xs else x # unicos (x # vistos) xs)"

definition claves :: "registro list \<Rightarrow> string list" where
  "claves datos = unicos [] (concat (map (map fst) datos))"

text \<open>
  The dtype pandas infers for a column built from Python objects: any string makes it
  \<open>object\<close>; booleans make it \<open>bool\<close> when every cell is a boolean and \<open>object\<close> otherwise;
  numbers, with or without missing cells, make it numeric; a column of \<open>None\<close> only is
  \<open>object\<close>, one with a NaN and no value is \<open>float64\<close>.
\<close>

definition inferir_dtype :: "valor list \<Rightarrow> dtype" where
  "inferir_dtype vs =
     (if list_ex es_texto vs then DObjeto
      else if list_ex es_booleano vs then (if list_all es_booleano vs then DBooleano else DObjeto)
      else if list_ex es_num vs \<or> List.member vs NaN then DNumerico
      else DObjeto)"

text \<open>In a numeric column \<open>None\<close> is stored as NaN.\<close>

definition convertir :: "dtype \<Rightarrow> valor \<Rightarrow> valor" where
  "convertir t v = (if t = DNumerico \<and> v = Nulo then NaN else v)"

definition DataFrame :: "registro list \<Rightarrow> dataframe" where
  "DataFrame datos =
     (let cols = claves datos;
          tipos = map (\<lambda>c. inferir_dtype (map (\<lambda>r. celda r c) datos)) cols
      in \<lparr>columnas = zip cols tipos,
          filas = map (\<lambda>r. map (\<lambda>(c, t). (c, convertir t (celda r c))) (zip cols tipos)) datos\<rparr>)"

text \<open>
  \<open>to_dict('records')\<close> zips the columns row by row: a frame without columns gives no
  record, whatever its number of rows.
\<close>

definition to_dict_records :: "dataframe \<Rightarrow> registro list" where
  "to_dict_records df = (if columnas df = [] then [] else filas df)"

definition serie :: "dataframe \<Rightarrow> string \<Rightarrow> valor list" where
  "serie df c = map (\<lambda>r. celda r c) (filas df)"

definition en_columnas :: "dataframe \<Rightarrow> string \<Rightarrow> bool" where
  "en_columnas df c = List.member (map fst (columnas df)) c"

definition dtype_de :: "dataframe \<Rightarrow> string \<Rightarrow> dtype" where
  "dtype_de df c = (case map_of (columnas df) c of None \<Rightarrow> DObjeto | Some t \<Rightarrow> t)"

definition empty_df :: "dataframe \<Rightarrow> bool" where
  "empty_df df = (columnas df = [] \<or> filas df = [])"

text \<open>
  Two cells are the same key for \<open>duplicated\<close>, \<open>unique\<close> and \<open>isin\<close> when they are both
  missing or compare equal in Python (\<open>True == 1\<close>).
\<close>

fun clave_valor :: "valor \<Rightarrow> valor" where
  "clave_valor Nulo = NaN"
| "clave_valor (Booleano b) = Num (if b then 1 else 0)"
| "clave_valor v = v"

definition clave_fila :: "string list \<Rightarrow> registro \<Rightarrow> valor list" where
  "clave_fila cs r = map (\<lambda>c. clave_valor (celda r c)) cs"

text \<open>\<open>duplicated(keep='first')\<close>: a row is marked when an earlier row has its key.\<close>

fun marcar_primero :: "'k list \<Rightarrow> 'k list \<Rightarrow> bool list" where
  "marcar_primero vistos [] = []"
| "marcar_primero vistos (k # ks) =
     (if List.member vistos k then True # marcar_primero vistos ks
      else False # marcar_primero (k # vistos) ks)"

definition contar :: "bool list \<Rightarrow> nat" where
  "contar bs = length (filter (\<lambda>b. b) bs)"

text \<open>\<open>df.duplicated()\<close> over all columns; an empty frame gives an empty mask.\<close>

definition duplicated_df :: "dataframe \<Rightarrow> bool list" where
  "duplicated_df df =
     (if empty_df df then []
      else marcar_primero [] (map (clave_fila (map fst (columnas df))) (filas df)))"

text \<open>
  \<open>Series.quantile(q)\<close> with linear interpolation over the cells that are not missing;
  \<open>None\<close> stands for the NaN an empty column gives.
\<close>

definition quantile :: "rat list \<Rightarrow> rat \<Rightarrow> rat option" where
  "quantile xs q =
     (if xs = [] then None
      else let ys = sort xs;
               pos = q * of_nat (length ys - 1);
               i = nat \<lfloor>pos\<rfloor>;
               g = pos - of_int \<lfloor>pos\<rfloor>
           in Some (if g = 0 then ys ! i else ys ! i + (ys ! (i + 1) - ys ! i) * g))"

definition numeros :: "valor list \<Rightarrow> rat list" where
  "numeros vs = List.map_filter num_de vs"

text \<open>Python's \<open>round(x, 2)\<close> on exact numbers: half-way cases go to the even neighbour.\<close>

definition round_mitad_par :: "rat \<Rightarrow> int" where
  "round_mitad_par x =
     (let f = \<lfloor>x\<rfloor>; d = x - of_int f
      in if d < 1 / 2 then f else if 1 / 2 < d then f + 1 else if even f then f else f + 1)"

definition round2 :: "rat \<Rightarrow> rat" where
  "round2 x = of_int (round_mitad_par (x * 100)) / 100"

section \<open>Quality metrics (utilidades/helpers/helpers\_pipeline.py)\<close>

definition tiene_outliers_extremos :: "dtype \<Rightarrow> valor list \<Rightarrow> bool" where
  "tiene_outliers_extremos t vs =
     (if t \<noteq> DNumerico then False
      else case (quantile (numeros vs) (1 / 4), quantile (numeros vs) (3 / 4)) of
        (Some Q1, Some Q3) \<Rightarrow>
          (let IQR = Q3 - Q1 in
           if IQR = 0 then False
           else let limite_inferior = Q1 - 3 * IQR; limite_superior = Q3 + 3 * IQR
                in list_ex (\<lambda>x. x < limite_inferior) (numeros vs)
                   \<or> list_ex (\<lambda>x. limite_superior < x) (numeros vs))
      | _ \<Rightarrow> False)"

definition es_texto_consistente :: "valor list \<Rightarrow> bool" where
  "es_texto_consistente vs =
     (let valores_unicos = unicos [] (map clave_valor (filter (\<lambda>v. \<not> isnull v) vs))
      in if length valores_unicos = 0 then True else list_all es_texto valores_unicos)"

text \<open>\<open>np.isinf\<close>: every number of the model is finite.\<close>

definition isinf :: "valor \<Rightarrow> bool" where
  "isinf v = False"

definition col_puntuacion :: "dataframe \<Rightarrow> string \<times> dtype \<Rightarrow> nat" where
  "col_puntuacion df ct =
     (let vs = serie df (fst ct); t = snd ct in
      if length (filter (\<lambda>v. \<not> isnull v) vs) = 0 then 0
      else (if t = DNumerico then
              (if \<not> list_ex isinf vs then 1 else 0)
              + (if \<not> tiene_outliers_extremos t vs then 1 else 0)
            else if t = DObjeto then (if es_texto_consistente vs then 1 else 0)
            else 0)
           + (if (of_nat (length (filter isnull vs)) :: rat) / of_nat (length (filas df)) < 1 / 2
              then 1 else 0))"

definition calcular_precision_datos :: "dataframe \<Rightarrow> rat" where
  "calcular_precision_datos df =
     (let puntuacion = sum_list (map (col_puntuacion df) (columnas df));
          total_columnas = length (columnas df)
      in if total_columnas = 0 then 0
         else (of_nat puntuacion / of_nat (total_columnas * 3)) * 100)"

text \<open>
  The dict \<open>calcular_metricas_calidad\<close> returns; the last two keys are absent from the
  dict of the empty record set.
\<close>

record metricas_calidad =
  completitud :: rat
  consistencia :: rat
  precision :: rat
  total_registros :: nat
  registros_duplicados :: "nat option"
  celdas_nulas :: "nat option"

definition calcular_metricas_calidad :: "registro list \<Rightarrow> metricas_calidad" where
  "calcular_metricas_calidad datos =
     (if datos = [] then
        \<lparr>completitud = 0, consistencia = 0, precision = 0, total_registros = 0,
         registros_duplicados = None, celdas_nulas = None\<rparr>
      else
        let df = DataFrame datos;
            total_celdas = length (filas df) * length (columnas df);
            nulas = sum_list (map (\<lambda>c. length (filter isnull (serie df (fst c)))) (columnas df));
            completitud_v =
              (if 0 < total_celdas
               then ((of_nat total_celdas - of_nat nulas) / of_nat total_celdas) * 100 else 0);
            duplicados = contar (duplicated_df df);
            total = length (filas df);
            consistencia_v =
              (if 0 < total then ((of_nat total - of_nat duplicados) / of_nat total) * 100 else 0);
            precision_v = calcular_precision_datos df
        in \<lparr>completitud = round2 completitud_v, consistencia = round2 consistencia_v,
            precision = round2 precision_v, total_registros = total,
            registros_duplicados = Some duplicados, celdas_nulas = Some nulas\<rparr>)"

section \<open>The cleansing transformer (pipeline/transformadores/transformador\_limpieza.py)\<close>

text \<open>
  \<open>configuracion_final\<close>, with every key of the default dictionary present (a sub-dictionary
  given by the caller replaces the default one whole, so it has to be complete).
\<close>

record config_nulos =
  estrategia :: string
  imputacion :: string
  valor_fijo :: valor

record config_outliers =
  out_habilitado :: bool
  metodo :: string
  factor :: rat
  columnas_numericas :: "string list option"

record config_duplicados =
  dup_habilitado :: bool
  mantener :: string
  subset :: "string list option"

record config_texto =
  txt_habilitada :: bool
  minusculas :: bool
  eliminar_espacios :: bool
  eliminar_caracteres_especiales :: bool
  normalizar_acentos :: bool

record config_fechas =
  fec_habilitada :: bool
  formato_entrada :: string
  formato_salida :: string
  zona_horaria :: string

record rango =
  rango_min :: "rat option"
  rango_max :: "rat option"

record longitud =
  longitud_min :: "int option"
  longitud_max :: "int option"

record config_validacion =
  val_habilitada :: bool
  rangos_numericos :: "(string \<times> rango) list"
  valores_permitidos :: "(string \<times> valor list) list"
  longitud_texto :: "(string \<times> longitud) list"

record configuracion_limpieza =
  manejo_nulos :: config_nulos
  manejo_outliers :: config_outliers
  manejo_duplicados :: config_duplicados
  normalizacion_texto :: config_texto
  normalizacion_fechas :: config_fechas
  validacion_datos :: config_validacion

text \<open>
  Two library behaviours are taken as given: the text \<open>str\<close> gives for a number (it
  depends on the number being an int or a float), and what lines 272 to 282 make of one
  \<open>object\<close> column (\<open>pd.to_datetime\<close>, \<open>tz_localize\<close>, \<open>strftime\<close>): \<open>None\<close> when the
  parse raises and the column is left as it was.
\<close>

record biblioteca =
  str_num :: "rat \<Rightarrow> string"
  fechas_columna :: "config_fechas \<Rightarrow> valor list \<Rightarrow> valor list option"

definition a_tilde :: string where
  "a_tilde = [char_of (225 :: nat)]"

definition e_tilde :: string where
  "e_tilde = [char_of (233 :: nat)]"

definition o_tilde :: string where
  "o_tilde = [char_of (243 :: nat)]"

definition validar_configuracion_limpieza :: "configuracion_limpieza \<Rightarrow> excepcion + bool" where
  "validar_configuracion_limpieza cfg =
     (if \<not> List.member [''eliminar'', ''imputar'', ''marcar''] (estrategia (manejo_nulos cfg))
      then Inl (Excepcion ErrorConfiguracion
             (''Estrategia de nulos inv'' @ a_tilde @ ''lida: '' @ estrategia (manejo_nulos cfg)))
      else if estrategia (manejo_nulos cfg) = ''imputar''
              \<and> \<not> List.member [''media'', ''mediana'', ''moda'', ''valor_fijo'']
                    (imputacion (manejo_nulos cfg))
      then Inl (Excepcion ErrorConfiguracion
             (''M'' @ e_tilde @ ''todo de imputaci'' @ o_tilde @ ''n inv'' @ a_tilde @ ''lido: ''
              @ imputacion (manejo_nulos cfg)))
      else if \<not> List.member [''iqr'', ''zscore'', ''isolation_forest''] (metodo (manejo_outliers cfg))
      then Inl (Excepcion ErrorConfiguracion
             (''M'' @ e_tilde @ ''todo de outliers inv'' @ a_tilde @ ''lido: ''
              @ metodo (manejo_outliers cfg)))
      else Inr True)"

subsection \<open>Column helpers\<close>

definition nombres :: "dataframe \<Rightarrow> string list" where
  "nombres df = map fst (columnas df)"

text \<open>\<open>df[c] = vs\<close>: an existing column is replaced in place, a new one goes last.\<close>

definition asignar :: "string \<Rightarrow> dtype \<Rightarrow> valor list \<Rightarrow> dataframe \<Rightarrow> dataframe" where
  "asignar c t vs df =
     \<lparr>columnas = AList.update c t (columnas df),
      filas = map2 (\<lambda>r v. AList.update c v r) (filas df) vs\<rparr>"

definition filtrar_filas :: "(registro \<Rightarrow> bool) \<Rightarrow> dataframe \<Rightarrow> dataframe" where
  "filtrar_filas P df = df\<lparr>filas := filter P (filas df)\<rparr>"

definition conservar :: "bool list \<Rightarrow> 'a list \<Rightarrow> 'a list" where
  "conservar marcas xs = map snd (filter (\<lambda>(m, x). \<not> m) (zip marcas xs))"

definition dropna :: "dataframe \<Rightarrow> dataframe" where
  "dropna df = filtrar_filas (\<lambda>r. \<not> list_ex (\<lambda>c. isnull (celda r c)) (nombres df)) df"

text \<open>
  \<open>fillna(v)\<close> on one column. A value that is not a number turns a numeric column into
  an \<open>object\<close> one.
\<close>

definition fillna :: "string \<Rightarrow> valor \<Rightarrow> dataframe \<Rightarrow> dataframe" where
  "fillna c v df =
     \<lparr>columnas =
        (if dtype_de df c = DNumerico \<and> \<not> es_num v \<and> list_ex isnull (serie df c)
         then AList.update c DObjeto (columnas df) else columnas df),
      filas = map (\<lambda>r. if isnull (celda r c) then AList.update c v r else r) (filas df)\<rparr>"

definition mean :: "rat list \<Rightarrow> rat option" where
  "mean xs = (if xs = [] then None else Some (sum_list xs / of_nat (length xs)))"

definition median :: "rat list \<Rightarrow> rat option" where
  "median xs = quantile xs (1 / 2)"

definition veces :: "valor list \<Rightarrow> valor \<Rightarrow> nat" where
  "veces vs v = length (filter (\<lambda>w. clave_valor w = clave_valor v) vs)"

fun menor_texto :: "string \<Rightarrow> string \<Rightarrow> bool" where
  "menor_texto [] [] = False"
| "menor_texto [] (b # bs) = True"
| "menor_texto (a # as) [] = False"
| "menor_texto (a # as) (b # bs) =
     ((of_char a :: nat) < of_char b \<or> (a = b \<and> menor_texto as bs))"

fun menor_valor :: "valor \<Rightarrow> valor \<Rightarrow> bool" where
  "menor_valor (Texto a) (Texto b) = menor_texto a b"
| "menor_valor (Num a) (Num b) = (a < b)"
| "menor_valor v w = False"

fun minimo :: "valor \<Rightarrow> valor list \<Rightarrow> valor" where
  "minimo m [] = m"
| "minimo m (v # vs) = minimo (if menor_valor (clave_valor v) (clave_valor m) then v else m) vs"

text \<open>
  \<open>Series.mode()[0]\<close>: among the most frequent values that are not missing, the least
  when they can be sorted (all strings, or all numbers and booleans), the first seen
  otherwise; \<open>None\<close> when every cell is missing (the empty mode, whose \<open>[0]\<close> raises).
\<close>

definition mode0 :: "valor list \<Rightarrow> valor option" where
  "mode0 vs =
     (let presentes = filter (\<lambda>v. \<not> isnull v) vs;
          candidatos = filter (\<lambda>v. list_all (\<lambda>w. veces presentes w \<le> veces presentes v) presentes)
                         presentes
      in case candidatos of
           [] \<Rightarrow> None
         | v # resto \<Rightarrow>
             Some (if list_all es_texto candidatos
                      \<or> list_all (\<lambda>w. es_num (clave_valor w)) candidatos
                   then minimo v resto else v))"

subsection \<open>Stage 1: missing values\<close>

fun imputar_columna ::
  "string \<Rightarrow> valor \<Rightarrow> dataframe \<Rightarrow> string \<times> dtype \<Rightarrow> excepcion + dataframe \<Rightarrow> excepcion + dataframe"
  where
  "imputar_columna metodo_imp fijo df ct (Inl e) = Inl e"
| "imputar_columna metodo_imp fijo df ct (Inr df_limpio) =
     (let columna = fst ct; vs = serie df columna in
      if snd ct = DNumerico then
        (if metodo_imp = ''media'' then
           (case mean (numeros vs) of
              None \<Rightarrow> Inr df_limpio | Some m \<Rightarrow> Inr (fillna columna (Num m) df_limpio))
         else if metodo_imp = ''mediana'' then
           (case median (numeros vs) of
              None \<Rightarrow> Inr df_limpio | Some m \<Rightarrow> Inr (fillna columna (Num m) df_limpio))
         else if metodo_imp = ''moda'' then
           (case mode0 vs of
              None \<Rightarrow> Inl (Excepcion KeyError ''0'')
            | Some m \<Rightarrow> Inr (fillna columna m df_limpio))
         else if metodo_imp = ''valor_fijo'' then
           (if fijo \<noteq> Nulo then Inr (fillna columna fijo df_limpio) else Inr df_limpio)
         else Inr df_limpio)
      else
        (if metodo_imp = ''moda'' then
           (case mode0 vs of
              None \<Rightarrow> Inr df_limpio | Some m \<Rightarrow> Inr (fillna columna m df_limpio))
         else if metodo_imp = ''valor_fijo'' then
           (if fijo \<noteq> Nulo then Inr (fillna columna fijo df_limpio) else Inr df_limpio)
         else Inr df_limpio))"

definition marcar_columna :: "dataframe \<Rightarrow> string \<Rightarrow> dataframe \<Rightarrow> dataframe" where
  "marcar_columna df columna df_limpio =
     asignar (columna @ ''_es_nulo'') DBooleano
       (map (\<lambda>v. Booleano (isnull v)) (serie df columna)) df_limpio"

definition manejar_valores_nulos :: "configuracion_limpieza \<Rightarrow> dataframe \<Rightarrow> excepcion + dataframe"
  where
  "manejar_valores_nulos cfg df =
     (let config_nulos = manejo_nulos cfg in
      if estrategia config_nulos = ''eliminar'' then Inr (dropna df)
      else if estrategia config_nulos = ''imputar'' then
        foldl (\<lambda>acc ct. imputar_columna (imputacion config_nulos) (valor_fijo config_nulos) df ct acc)
          (Inr df) (columnas df)
      else if estrategia config_nulos = ''marcar'' then
        Inr (foldl (\<lambda>acc c. marcar_columna df c acc) df (nombres df))
      else Inl (Excepcion OtraExcepcion ''local variable df_limpio referenced before assignment''))"

subsection \<open>Stage 2: text\<close>

text \<open>The characters \<open>str.isspace\<close> accepts, which \<open>strip\<close> and the pattern \<open>\s\<close> use.\<close>

definition es_espacio :: "char \<Rightarrow> bool" where
  "es_espacio c =
     (let n = (of_char c :: nat)
      in (9 \<le> n \<and> n \<le> 13) \<or> (28 \<le> n \<and> n \<le> 32) \<or> n = 133 \<or> n = 160)"

definition es_alfanumerico :: "char \<Rightarrow> bool" where
  "es_alfanumerico c =
     (let n = (of_char c :: nat)
      in (48 \<le> n \<and> n \<le> 57) \<or> (65 \<le> n \<and> n \<le> 90) \<or> (97 \<le> n \<and> n \<le> 122))"

text \<open>
  \<open>str.lower\<close>: the capitals \<open>A\<close> to \<open>Z\<close> and those of Latin-1 (U+00C0 to U+00DE but
  the multiplication sign) move 32 places up.
\<close>

definition lower_char :: "char \<Rightarrow> char" where
  "lower_char c =
     (let n = (of_char c :: nat)
      in if (65 \<le> n \<and> n \<le> 90) \<or> (192 \<le> n \<and> n \<le> 222 \<and> n \<noteq> 215)
         then char_of (n + 32) else c)"

definition lower :: "string \<Rightarrow> string" where
  "lower t = map lower_char t"

definition strip :: "string \<Rightarrow> string" where
  "strip t = rev (dropWhile es_espacio (rev (dropWhile es_espacio t)))"

definition quitar_especiales :: "string \<Rightarrow> string" where
  "quitar_especiales t = filter (\<lambda>c. es_alfanumerico c \<or> es_espacio c) t"

text \<open>
  \<open>normalize('NFD')\<close>, \<open>encode('ascii', errors='ignore')\<close>, \<open>decode\<close>: an ASCII
  character stays; an accented Latin-1 letter leaves its base letter (the combining
  mark NFD splits off is dropped); every other character is dropped.
\<close>

definition base_ascii :: "char \<Rightarrow> string" where
  "base_ascii c =
     (let n = (of_char c :: nat) in
      if n < 128 then [c]
      else if 192 \<le> n \<and> n \<le> 197 then ''A''
      else if n = 199 then ''C''
      else if 200 \<le> n \<and> n \<le> 203 then ''E''
      else if 204 \<le> n \<and> n \<le> 207 then ''I''
      else if n = 209 then ''N''
      else if 210 \<le> n \<and> n \<le> 214 then ''O''
      else if 217 \<le> n \<and> n \<le> 220 then ''U''
      else if n = 221 then ''Y''
      else if 224 \<le> n \<and> n \<le> 229 then ''a''
      else if n = 231 then ''c''
      else if 232 \<le> n \<and> n \<le> 235 then ''e''
      else if 236 \<le> n \<and> n \<le> 239 then ''i''
      else if n = 241 then ''n''
      else if 242 \<le> n \<and> n \<le> 246 then ''o''
      else if 249 \<le> n \<and> n \<le> 252 then ''u''
      else if n = 253 \<or> n = 255 then ''y''
      else [])"

definition sin_acentos :: "string \<Rightarrow> string" where
  "sin_acentos t = concat (map base_ascii t)"

fun astype_str :: "biblioteca \<Rightarrow> valor \<Rightarrow> string" where
  "astype_str bib (Texto t) = t"
| "astype_str bib Nulo = ''None''"
| "astype_str bib NaN = ''nan''"
| "astype_str bib (Num x) = str_num bib x"
| "astype_str bib (Booleano b) = (if b then ''True'' else ''False'')"

definition normalizar_cadena :: "config_texto \<Rightarrow> string \<Rightarrow> string" where
  "normalizar_cadena config_texto t0 =
     (let t1 = (if minusculas config_texto then lower t0 else t0);
          t2 = (if eliminar_espacios config_texto then strip t1 else t1);
          t3 = (if eliminar_caracteres_especiales config_texto then quitar_especiales t2 else t2);
          t4 = (if normalizar_acentos config_texto then sin_acentos t3 else t3)
      in t4)"

definition normalizar_texto :: "biblioteca \<Rightarrow> configuracion_limpieza \<Rightarrow> dataframe \<Rightarrow> dataframe"
  where
  "normalizar_texto bib cfg df =
     foldl (\<lambda>df_limpio ct.
              if snd ct = DObjeto
              then asignar (fst ct) DObjeto
                     (map (\<lambda>v. Texto (normalizar_cadena (normalizacion_texto cfg) (astype_str bib v)))
                        (serie df (fst ct)))
                     df_limpio
              else df_limpio)
       df (columnas df)"

subsection \<open>Stage 3: dates\<close>

definition normalizar_fechas :: "biblioteca \<Rightarrow> configuracion_limpieza \<Rightarrow> dataframe \<Rightarrow> dataframe"
  where
  "normalizar_fechas bib cfg df =
     foldl (\<lambda>df_limpio ct.
              if snd ct = DObjeto
              then (case fechas_columna bib (normalizacion_fechas cfg) (serie df (fst ct)) of
                      None \<Rightarrow> df_limpio
                    | Some vs \<Rightarrow> asignar (fst ct) DObjeto vs df_limpio)
              else df_limpio)
       df (columnas df)"

subsection \<open>Stage 4: duplicates\<close>

text \<open>
  The key columns of \<open>duplicated(subset=...)\<close>: every column when \<open>subset\<close> is \<open>None\<close>; a
  label that is no column raises \<open>KeyError\<close>, an empty list leaves nothing to unpack.
\<close>

definition columnas_clave :: "dataframe \<Rightarrow> string list option \<Rightarrow> excepcion + string list" where
  "columnas_clave df sub =
     (case sub of
        None \<Rightarrow> Inr (nombres df)
      | Some cs \<Rightarrow>
          if \<not> list_all (en_columnas df) cs then Inl (Excepcion KeyError ''subset'')
          else if cs = [] then Inl (Excepcion ValueError ''not enough values to unpack'')
          else Inr (filter (List.member cs) (nombres df)))"

definition marcar_ultimo :: "'k list \<Rightarrow> bool list" where
  "marcar_ultimo ks = rev (marcar_primero [] (rev ks))"

definition marcar_todos :: "'k list \<Rightarrow> bool list" where
  "marcar_todos ks = map (\<lambda>k. 1 < length (filter (\<lambda>j. j = k) ks)) ks"

definition manejar_duplicados :: "configuracion_limpieza \<Rightarrow> dataframe \<Rightarrow> excepcion + dataframe"
  where
  "manejar_duplicados cfg df =
     (let config_duplicados = manejo_duplicados cfg in
      if empty_df df then Inr df
      else case columnas_clave df (subset config_duplicados) of
        Inl e \<Rightarrow> Inl e
      | Inr cs \<Rightarrow>
          (let ks = map (clave_fila cs) (filas df) in
           if mantener config_duplicados = ''primero''
           then Inr (df\<lparr>filas := conservar (marcar_primero [] ks) (filas df)\<rparr>)
           else if mantener config_duplicados = ''ultimo''
           then Inr (df\<lparr>filas := conservar (marcar_ultimo ks) (filas df)\<rparr>)
           else if mantener config_duplicados = ''ninguno''
           then Inr (df\<lparr>filas := conservar (marcar_todos ks) (filas df)\<rparr>)
           else Inr df))"

subsection \<open>Stage 5: outliers\<close>

definition fuera_iqr :: "rat \<Rightarrow> valor list \<Rightarrow> valor \<Rightarrow> bool" where
  "fuera_iqr k vs v =
     (case (quantile (numeros vs) (1 / 4), quantile (numeros vs) (3 / 4), v) of
        (Some Q1, Some Q3, Num x) \<Rightarrow>
          (let IQR = Q3 - Q1;
               limite_inferior = Q1 - k * IQR;
               limite_superior = Q3 + k * IQR
           in x < limite_inferior \<or> limite_superior < x)
      | _ \<Rightarrow> False)"

text \<open>The sample variance (\<open>std()\<close> squared, \<open>ddof = 1\<close>); none below two values.\<close>

definition varianza :: "rat list \<Rightarrow> rat option" where
  "varianza xs =
     (case mean xs of
        None \<Rightarrow> None
      | Some m \<Rightarrow>
          if length xs < 2 then None
          else Some (sum_list (map (\<lambda>x. (x - m) * (x - m)) xs) / of_nat (length xs - 1)))"

text \<open>
  \<open>abs((x - mean) / std) > k\<close> without the square root: with a positive deviation the
  quotient exceeds a negative \<open>k\<close> always and a \<open>k\<close> that is not negative when the squares
  compare so; a zero deviation makes the quotient NaN.
\<close>

definition fuera_zscore :: "rat \<Rightarrow> valor list \<Rightarrow> valor \<Rightarrow> bool" where
  "fuera_zscore k vs v =
     (case (mean (numeros vs), varianza (numeros vs), v) of
        (Some m, Some var, Num x) \<Rightarrow>
          if var = 0 then False
          else if k < 0 then True
          else k * k * var < (x - m) * (x - m)
      | _ \<Rightarrow> False)"

definition manejar_outliers :: "configuracion_limpieza \<Rightarrow> dataframe \<Rightarrow> dataframe" where
  "manejar_outliers cfg df =
     (let config_outliers = manejo_outliers cfg;
          cols = (case columnas_numericas config_outliers of
                    None \<Rightarrow> map fst (filter (\<lambda>ct. snd ct = DNumerico) (columnas df))
                  | Some cs \<Rightarrow> cs)
      in foldl (\<lambda>df_limpio columna.
                  if en_columnas df columna \<and> dtype_de df columna = DNumerico then
                    (if metodo config_outliers = ''iqr''
                     then filtrar_filas
                            (\<lambda>r. \<not> fuera_iqr (factor config_outliers) (serie df columna) (celda r columna))
                            df_limpio
                     else if metodo config_outliers = ''zscore''
                     then filtrar_filas
                            (\<lambda>r. \<not> fuera_zscore (factor config_outliers) (serie df columna)
                                      (celda r columna))
                            df_limpio
                     else df_limpio)
                  else df_limpio)
           df cols)"

subsection \<open>Stage 6: rules\<close>

fun num_entre :: "rat option \<Rightarrow> rat option \<Rightarrow> valor \<Rightarrow> bool" where
  "num_entre lo hi (Num x) =
     ((case lo of None \<Rightarrow> True | Some a \<Rightarrow> a \<le> x) \<and> (case hi of None \<Rightarrow> True | Some b \<Rightarrow> x \<le> b))"
| "num_entre lo hi v = (lo = None \<and> hi = None)"

fun len_entre :: "int option \<Rightarrow> int option \<Rightarrow> valor \<Rightarrow> bool" where
  "len_entre lo hi (Texto t) =
     ((case lo of None \<Rightarrow> True | Some a \<Rightarrow> a \<le> int (length t))
      \<and> (case hi of None \<Rightarrow> True | Some b \<Rightarrow> int (length t) \<le> b))"
| "len_entre lo hi v = (lo = None \<and> hi = None)"

definition isin :: "valor list \<Rightarrow> valor \<Rightarrow> bool" where
  "isin valores v = List.member (map clave_valor valores) (clave_valor v)"

definition validar_datos :: "configuracion_limpieza \<Rightarrow> dataframe \<Rightarrow> dataframe" where
  "validar_datos cfg df =
     (let config_validacion = validacion_datos cfg;
          df1 = foldl (\<lambda>df_limpio cr.
                   if en_columnas df (fst cr) \<and> dtype_de df (fst cr) = DNumerico
                   then filtrar_filas
                          (\<lambda>r. num_entre (rango_min (snd cr)) (rango_max (snd cr)) (celda r (fst cr)))
                          df_limpio
                   else df_limpio)
                 df (rangos_numericos config_validacion);
          df2 = foldl (\<lambda>df_limpio cv.
                   if en_columnas df (fst cv)
                   then filtrar_filas (\<lambda>r. isin (snd cv) (celda r (fst cv))) df_limpio
                   else df_limpio)
                 df1 (valores_permitidos config_validacion);
          df3 = foldl (\<lambda>df_limpio cl.
                   if en_columnas df (fst cl) \<and> dtype_de df (fst cl) = DObjeto
                   then filtrar_filas
                          (\<lambda>r. len_entre (longitud_min (snd cl)) (longitud_max (snd cl))
                                  (celda r (fst cl)))
                          df_limpio
                   else df_limpio)
                 df2 (longitud_texto config_validacion)
      in df3)"

subsection \<open>The transformer\<close>

definition aplicar_limpieza ::
  "biblioteca \<Rightarrow> configuracion_limpieza \<Rightarrow> dataframe \<Rightarrow> excepcion + dataframe" where
  "aplicar_limpieza bib cfg df =
     (case manejar_valores_nulos cfg df of
        Inl e \<Rightarrow> Inl e
      | Inr df1 \<Rightarrow>
     (let df2 = (if txt_habilitada (normalizacion_texto cfg) then normalizar_texto bib cfg df1 else df1);
          df3 = (if fec_habilitada (normalizacion_fechas cfg) then normalizar_fechas bib cfg df2 else df2)
      in case (if dup_habilitado (manejo_duplicados cfg) then manejar_duplicados cfg df3 else Inr df3) of
        Inl e \<Rightarrow> Inl e
      | Inr df4 \<Rightarrow>
     (let df5 = (if out_habilitado (manejo_outliers cfg) then manejar_outliers cfg df4 else df4);
          df6 = (if val_habilitada (validacion_datos cfg) then validar_datos cfg df5 else df5)
      in Inr df6)))"

text \<open>
  \<open>transformar\<close>: whatever is raised inside, the configuration error included, leaves as
  an \<open>ErrorTransformacion\<close> that carries its text.
\<close>

definition transformar_limpieza ::
  "biblioteca \<Rightarrow> configuracion_limpieza \<Rightarrow> registro list \<Rightarrow> excepcion + registro list" where
  "transformar_limpieza bib cfg datos =
     (case (case validar_configuracion_limpieza cfg of
              Inl e \<Rightarrow> Inl e
            | Inr ok \<Rightarrow>
                if datos = [] then Inr []
                else (case aplicar_limpieza bib cfg (DataFrame datos) of
                        Inl e \<Rightarrow> Inl e
                      | Inr df_limpio \<Rightarrow> Inr (to_dict_records df_limpio))) of
        Inl e \<Rightarrow>
          Inl (Excepcion ErrorTransformacion
                 (''Error en transformaci'' @ o_tilde @ ''n de limpieza: '' @ str_e e))
      | Inr registros_limpios \<Rightarrow> Inr registros_limpios)"


section \<open>The orchestrator (pipeline/ejecutor.py)\<close>

text \<open>
  Collaborators are arbitrary user code: a call reads and changes the world \<open>'s\<close> (files,
  network, the collaborator's own fields) and either returns or raises.
\<close>

type_synonym ('s, 'a) llamada = "'s \<Rightarrow> (excepcion + 'a) \<times> 's"

type_synonym parametros = "registro option"

record 's extractor =
  extraer :: "parametros \<Rightarrow> ('s, registro list) llamada"

record 's transformador =
  nombre :: string
  transformar :: "registro list \<Rightarrow> ('s, registro list) llamada"
  validar_configuracion :: "excepcion + bool"

record 's cargador =
  cargar :: "registro list \<Rightarrow> ('s, string list) llamada"

text \<open>A validator may lack either hook (\<open>hasattr\<close>).\<close>

record 's validador =
  validar_entrada :: "(registro list \<Rightarrow> ('s, unit) llamada) option"
  validar_salida :: "(registro list \<Rightarrow> ('s, unit) llamada) option"

record configuracion_pipeline =
  nombre_pipeline :: string
  version :: string
  descripcion :: string
  tamano_lote :: int
  max_workers :: int
  timeout_segundos :: int
  nivel_log :: string
  incluir_metricas :: bool
  validar_entrada_cfg :: bool
  validar_salida_cfg :: bool
  tolerancia_errores :: rat

record resultado_pipeline =
  r_nombre_pipeline :: string
  fecha_inicio :: rat
  fecha_fin :: rat
  duracion_segundos :: rat
  registros_procesados :: int
  registros_exitosos :: int
  registros_fallidos :: int
  tasa_exito :: rat
  completitud_datos :: rat
  consistencia_datos :: rat
  precision_datos :: rat
  errores :: "string list"
  advertencias :: "string list"
  archivos_salida :: "string list"
  reportes_generados :: "string list"

record 's ejecutor_pipeline =
  configuracion :: configuracion_pipeline
  extractores :: "'s extractor list"
  transformadores :: "'s transformador list"
  cargadores :: "'s cargador list"
  validadores :: "'s validador list"

definition EjecutorPipeline :: "configuracion_pipeline \<Rightarrow> 's ejecutor_pipeline" where
  "EjecutorPipeline cfg =
     \<lparr>configuracion = cfg, extractores = [], transformadores = [], cargadores = [],
      validadores = []\<rparr>"

text \<open>
  Registration appends and logs; the result is a sum so that a raise at registration
  would have a place.
\<close>

definition agregar_extractor ::
  "'s extractor \<Rightarrow> 's ejecutor_pipeline \<Rightarrow> excepcion + 's ejecutor_pipeline" where
  "agregar_extractor x ej = Inr (ej\<lparr>extractores := extractores ej @ [x]\<rparr>)"

definition agregar_transformador ::
  "'s transformador \<Rightarrow> 's ejecutor_pipeline \<Rightarrow> excepcion + 's ejecutor_pipeline" where
  "agregar_transformador t ej = Inr (ej\<lparr>transformadores := transformadores ej @ [t]\<rparr>)"

definition agregar_cargador ::
  "'s cargador \<Rightarrow> 's ejecutor_pipeline \<Rightarrow> excepcion + 's ejecutor_pipeline" where
  "agregar_cargador c ej = Inr (ej\<lparr>cargadores := cargadores ej @ [c]\<rparr>)"

definition agregar_validador ::
  "'s validador \<Rightarrow> 's ejecutor_pipeline \<Rightarrow> excepcion + 's ejecutor_pipeline" where
  "agregar_validador v ej = Inr (ej\<lparr>validadores := validadores ej @ [v]\<rparr>)"

fun bucle_extraccion ::
  "'s extractor list \<Rightarrow> parametros \<Rightarrow> registro list \<Rightarrow> ('s, registro list) llamada" where
  "bucle_extraccion [] p datos_extraidos s = (Inr datos_extraidos, s)"
| "bucle_extraccion (x # xs) p datos_extraidos s =
     (case extraer x p s of
        (Inl e, s') \<Rightarrow> (Inl e, s')
      | (Inr datos, s') \<Rightarrow> bucle_extraccion xs p (datos_extraidos @ datos) s')"

definition ejecutar_extraccion ::
  "'s ejecutor_pipeline \<Rightarrow> parametros \<Rightarrow> ('s, registro list) llamada" where
  "ejecutar_extraccion ej p s = bucle_extraccion (extractores ej) p [] s"

fun bucle_validacion_entrada :: "'s validador list \<Rightarrow> registro list \<Rightarrow> ('s, unit) llamada" where
  "bucle_validacion_entrada [] datos s = (Inr (), s)"
| "bucle_validacion_entrada (v # vs) datos s =
     (case validar_entrada v of
        None \<Rightarrow> bucle_validacion_entrada vs datos s
      | Some f \<Rightarrow>
          (case f datos s of
             (Inl e, s') \<Rightarrow> (Inl e, s')
           | (Inr u, s') \<Rightarrow> bucle_validacion_entrada vs datos s'))"

definition ejecutar_validacion_entrada ::
  "'s ejecutor_pipeline \<Rightarrow> registro list \<Rightarrow> ('s, unit) llamada" where
  "ejecutar_validacion_entrada ej datos s = bucle_validacion_entrada (validadores ej) datos s"

fun bucle_transformacion ::
  "'s transformador list \<Rightarrow> registro list \<Rightarrow> ('s, registro list) llamada" where
  "bucle_transformacion [] datos_transformados s = (Inr datos_transformados, s)"
| "bucle_transformacion (t # ts) datos_transformados s =
     (case transformar t datos_transformados s of
        (Inl e, s') \<Rightarrow> (Inl e, s')
      | (Inr datos, s') \<Rightarrow> bucle_transformacion ts datos s')"

definition ejecutar_transformacion ::
  "'s ejecutor_pipeline \<Rightarrow> registro list \<Rightarrow> ('s, registro list) llamada" where
  "ejecutar_transformacion ej datos s = bucle_transformacion (transformadores ej) datos s"

fun bucle_validacion_salida :: "'s validador list \<Rightarrow> registro list \<Rightarrow> ('s, unit) llamada" where
  "bucle_validacion_salida [] datos s = (Inr (), s)"
| "bucle_validacion_salida (v # vs) datos s =
     (case validar_salida v of
        None \<Rightarrow> bucle_validacion_salida vs datos s
      | Some f \<Rightarrow>
          (case f datos s of
             (Inl e, s') \<Rightarrow> (Inl e, s')
           | (Inr u, s') \<Rightarrow> bucle_validacion_salida vs datos s'))"

definition ejecutar_validacion_salida ::
  "'s ejecutor_pipeline \<Rightarrow> registro list \<Rightarrow> ('s, unit) llamada" where
  "ejecutar_validacion_salida ej datos s = bucle_validacion_salida (validadores ej) datos s"

fun bucle_carga ::
  "'s cargador list \<Rightarrow> registro list \<Rightarrow> string list \<Rightarrow> ('s, string list) llamada" where
  "bucle_carga [] datos archivos_generados s = (Inr archivos_generados, s)"
| "bucle_carga (c # cs) datos archivos_generados s =
     (case cargar c datos s of
        (Inl e, s') \<Rightarrow> (Inl e, s')
      | (Inr archivos, s') \<Rightarrow> bucle_carga cs datos (archivos_generados @ archivos) s')"

definition ejecutar_carga ::
  "'s ejecutor_pipeline \<Rightarrow> registro list \<Rightarrow> ('s, string list) llamada" where
  "ejecutar_carga ej datos s = bucle_carga (cargadores ej) datos [] s"

text \<open>
  The body of the \<open>try\<close> of \<open>ejecutar\<close> up to the end of the load phase: what was
  extracted, what was transformed and the artifacts, or the first exception raised.
\<close>

definition fases ::
  "'s ejecutor_pipeline \<Rightarrow> parametros
     \<Rightarrow> ('s, registro list \<times> registro list \<times> string list) llamada" where
  "fases ej p s0 =
     (case ejecutar_extraccion ej p s0 of
        (Inl e, s1) \<Rightarrow> (Inl e, s1)
      | (Inr datos_extraidos, s1) \<Rightarrow>
     (case (if validar_entrada_cfg (configuracion ej)
            then ejecutar_validacion_entrada ej datos_extraidos s1 else (Inr (), s1)) of
        (Inl e, s2) \<Rightarrow> (Inl e, s2)
      | (Inr u, s2) \<Rightarrow>
     (case ejecutar_transformacion ej datos_extraidos s2 of
        (Inl e, s3) \<Rightarrow> (Inl e, s3)
      | (Inr datos_transformados, s3) \<Rightarrow>
     (case (if validar_salida_cfg (configuracion ej)
            then ejecutar_validacion_salida ej datos_transformados s3 else (Inr (), s3)) of
        (Inl e, s4) \<Rightarrow> (Inl e, s4)
      | (Inr u, s4) \<Rightarrow>
     (case ejecutar_carga ej datos_transformados s4 of
        (Inl e, s5) \<Rightarrow> (Inl e, s5)
      | (Inr archivos_generados, s5) \<Rightarrow>
          (Inr (datos_extraidos, datos_transformados, archivos_generados), s5))))))"

text \<open>
  \<open>ejecutar\<close>: \<open>reloj\<close> is \<open>datetime.utcnow()\<close> read off the world. The handler
  \<open>except Exception\<close> turns every exception into a result.
\<close>

definition ejecutar ::
  "('s \<Rightarrow> rat) \<Rightarrow> 's ejecutor_pipeline \<Rightarrow> parametros \<Rightarrow> 's \<Rightarrow> resultado_pipeline \<times> 's" where
  "ejecutar reloj ej p s0 =
     (let inicio = reloj s0 in
      case fases ej p s0 of
        (Inr (datos_extraidos, datos_transformados, archivos_generados), s) \<Rightarrow>
          (let metricas = calcular_metricas_calidad datos_transformados;
               fin = reloj s
           in (\<lparr>r_nombre_pipeline = nombre_pipeline (configuracion ej),
                fecha_inicio = inicio, fecha_fin = fin, duracion_segundos = fin - inicio,
                registros_procesados = int (length datos_extraidos),
                registros_exitosos = int (length datos_transformados),
                registros_fallidos = int (length datos_extraidos) - int (length datos_transformados),
                tasa_exito =
                  (if datos_extraidos \<noteq> []
                   then of_nat (length datos_transformados) / of_nat (length datos_extraidos)
                   else 0),
                completitud_datos = completitud metricas,
                consistencia_datos = consistencia metricas,
                precision_datos = precision metricas,
                errores = [], advertencias = [], archivos_salida = [] @ archivos_generados,
                reportes_generados = []\<rparr>, s))
      | (Inl e, s) \<Rightarrow>
          (let fin = reloj s
           in (\<lparr>r_nombre_pipeline = nombre_pipeline (configuracion ej),
                fecha_inicio = inicio, fecha_fin = fin, duracion_segundos = fin - inicio,
                registros_procesados = 0, registros_exitosos = 0, registros_fallidos = 0,
                tasa_exito = 0, completitud_datos = 0, consistencia_datos = 0,
                precision_datos = 0, errores = [str_e e], advertencias = [],
                archivos_salida = [], reportes_generados = []\<rparr>, s)))"

text \<open>The cleansing transformer as a collaborator: it touches nothing of the world.\<close>

definition TransformadorLimpieza ::
  "biblioteca \<Rightarrow> string \<Rightarrow> configuracion_limpieza \<Rightarrow> 's transformador" where
  "TransformadorLimpieza bib n cfg =
     \<lparr>nombre = n,
      transformar = (\<lambda>datos s. (transformar_limpieza bib cfg datos, s)),
      validar_configuracion = validar_configuracion_limpieza cfg\<rparr>"

section \<open>Concrete pipelines\<close>

definition cfg_pipeline :: configuracion_pipeline where
  "cfg_pipeline =
     \<lparr>nombre_pipeline = ''demo'', version = ''1.0.0'', descripcion = [],
      tamano_lote = 10000, max_workers = 4, timeout_segundos = 300, nivel_log = ''INFO'',
      incluir_metricas = True, validar_entrada_cfg = True, validar_salida_cfg = True,
      tolerancia_errores = 5 / 100\<rparr>"

definition reloj_cero :: "'s \<Rightarrow> rat" where
  "reloj_cero s = 0"

definition registro_a :: registro where
  "registro_a = [(''a'', Num 1)]"

definition extractor_constante :: "registro list \<Rightarrow> 's extractor" where
  "extractor_constante ds = \<lparr>extraer = (\<lambda>p s. (Inr ds, s))\<rparr>"

definition extractor_segunda_llamada :: "nat extractor" where
  "extractor_segunda_llamada =
     \<lparr>extraer = (\<lambda>p n. (if n = 0 then Inr [registro_a]
                          else Inl (Excepcion ErrorExtraccion ''fuente agotada''), Suc n))\<rparr>"

definition ejecutor_dos_extracciones :: "nat ejecutor_pipeline" where
  "ejecutor_dos_extracciones =
     (EjecutorPipeline cfg_pipeline)
       \<lparr>extractores := [extractor_segunda_llamada, extractor_segunda_llamada]\<rparr>"

definition cargador_roto :: "'s cargador" where
  "cargador_roto = \<lparr>cargar = (\<lambda>datos s. (Inl (Excepcion ErrorCarga ''disco lleno''), s))\<rparr>"

definition ejecutor_carga_rota :: "unit ejecutor_pipeline" where
  "ejecutor_carga_rota =
     (EjecutorPipeline cfg_pipeline)
       \<lparr>extractores := [extractor_constante [registro_a]], cargadores := [cargador_roto]\<rparr>"

definition transformador_duplicador :: "'s transformador" where
  "transformador_duplicador =
     \<lparr>nombre = ''duplicador'', transformar = (\<lambda>datos s. (Inr (datos @ datos), s)),
      validar_configuracion = Inr True\<rparr>"

definition transformador_vaciador :: "'s transformador" where
  "transformador_vaciador =
     \<lparr>nombre = ''vaciador'', transformar = (\<lambda>datos s. (Inr [], s)),
      validar_configuracion = Inr True\<rparr>"

definition ejecutor_duplicador :: "unit ejecutor_pipeline" where
  "ejecutor_duplicador =
     (EjecutorPipeline cfg_pipeline)
       \<lparr>extractores := [extractor_constante [registro_a]],
        transformadores := [transformador_duplicador]\<rparr>"

definition ejecutor_vaciador :: "unit ejecutor_pipeline" where
  "ejecutor_vaciador =
     (EjecutorPipeline cfg_pipeline)
       \<lparr>extractores := [extractor_constante [registro_a]],
        transformadores := [transformador_vaciador]\<rparr>"

definition configuracion_default :: configuracion_limpieza where
  "configuracion_default =
     \<lparr>manejo_nulos = \<lparr>estrategia = ''eliminar'', imputacion = ''media'', valor_fijo = Nulo\<rparr>,
      manejo_outliers =
        \<lparr>out_habilitado = True, metodo = ''iqr'', factor = 3 / 2, columnas_numericas = None\<rparr>,
      manejo_duplicados = \<lparr>dup_habilitado = True, mantener = ''primero'', subset = None\<rparr>,
      normalizacion_texto =
        \<lparr>txt_habilitada = True, minusculas = True, eliminar_espacios = True,
         eliminar_caracteres_especiales = False, normalizar_acentos = True\<rparr>,
      normalizacion_fechas =
        \<lparr>fec_habilitada = True, formato_entrada = ''auto'',
         formato_salida = ''%Y-%m-%d %H:%M:%S'', zona_horaria = ''UTC''\<rparr>,
      validacion_datos =
        \<lparr>val_habilitada = True, rangos_numericos = [], valores_permitidos = [],
         longitud_texto = []\<rparr>\<rparr>"

definition biblioteca_sin_fechas :: biblioteca where
  "biblioteca_sin_fechas = \<lparr>str_num = (\<lambda>x. []), fechas_columna = (\<lambda>c vs. None)\<rparr>"

definition datos_iqr :: "registro list" where
  "datos_iqr = [[(''v'', Num 10)], [(''v'', Num 12)], [(''v'', Num 11)], [(''v'', Num 13)],
                [(''v'', Num 1000)]]"

definition config_sin_outliers :: configuracion_limpieza where
  "config_sin_outliers =
     configuracion_default
       \<lparr>manejo_outliers := (manejo_outliers configuracion_default)\<lparr>out_habilitado := False\<rparr>\<rparr>"

definition datos_escenario :: "registro list" where
  "datos_escenario =
     [[(''a'', Num 1), (''b'', Texto ''X'')],
      [(''a'', Nulo), (''b'', Texto ''x'')],
      [(''a'', Num 1), (''b'', Texto ''X'')]]"

definition config_invalida :: configuracion_limpieza where
  "config_invalida =
     configuracion_default
       \<lparr>manejo_nulos := (manejo_nulos configuracion_default)\<lparr>estrategia := ''borrar''\<rparr>\<rparr>"

definition ejecutor_escenario :: "unit ejecutor_pipeline" where
  "ejecutor_escenario =
     (EjecutorPipeline cfg_pipeline)
       \<lparr>extractores := [extractor_constante datos_escenario],
        transformadores :=
          [TransformadorLimpieza biblioteca_sin_fechas ''LimpiezaDatos'' config_sin_outliers]\<rparr>"

definition ejecutor_invalido :: "unit ejecutor_pipeline" where
  "ejecutor_invalido =
     (EjecutorPipeline cfg_pipeline)
       \<lparr>extractores := [extractor_constante [registro_a]],
        transformadores :=
          [TransformadorLimpieza biblioteca_sin_fechas ''LimpiezaDatos'' config_invalida]\<rparr>"

definition datos_sin_campos :: "registro list" where
  "datos_sin_campos = [[], []]"

definition datos_repetidos :: "registro list" where
  "datos_repetidos =
     [[(''k'', Num 1), (''v'', Texto ''a'')], [(''k'', Num 2), (''v'', Texto ''b'')],
      [(''k'', Num 1), (''v'', Texto ''c'')]]"

definition config_subset_k :: configuracion_limpieza where
  "config_subset_k =
     configuracion_default
       \<lparr>manejo_duplicados := (manejo_duplicados configuracion_default)\<lparr>subset := Some [''k'']\<rparr>\<rparr>"

definition config_marcar :: configuracion_limpieza where
  "config_marcar =
     configuracion_default
       \<lparr>manejo_nulos := (manejo_nulos configuracion_default)\<lparr>estrategia := ''marcar''\<rparr>\<rparr>"

definition datos_un_valor :: "registro list" where
  "datos_un_valor = [[(''a'', Num 1)]]"

definition datos_cuartiles :: "registro list" where
  "datos_cuartiles =
     [[(''v'', Num 1)], [(''v'', Num 12)], [(''v'', Num 18)], [(''v'', Num 19)], [(''v'', Num 20)]]"

definition config_solo_duplicados :: configuracion_limpieza where
  "config_solo_duplicados =
     \<lparr>manejo_nulos = \<lparr>estrategia = ''eliminar'', imputacion = ''media'', valor_fijo = Nulo\<rparr>,
      manejo_outliers =
        \<lparr>out_habilitado = False, metodo = ''iqr'', factor = 3 / 2, columnas_numericas = None\<rparr>,
      manejo_duplicados = \<lparr>dup_habilitado = True, mantener = ''primero'', subset = None\<rparr>,
      normalizacion_texto =
        \<lparr>txt_habilitada = False, minusculas = True, eliminar_espacios = True,
         eliminar_caracteres_especiales = False, normalizar_acentos = True\<rparr>,
      normalizacion_fechas =
        \<lparr>fec_habilitada = False, formato_entrada = ''auto'',
         formato_salida = ''%Y-%m-%d %H:%M:%S'', zona_horaria = ''UTC''\<rparr>,
      validacion_datos =
        \<lparr>val_habilitada = False, rangos_numericos = [], valores_permitidos = [],
         longitud_texto = []\<rparr>\<rparr>"

definition datos_eszett :: "registro list" where
  "datos_eszett = [[(''t'', Texto [char_of (223 :: nat), CHR '' '', CHR ''a''])]]"

definition config_reglas :: configuracion_limpieza where
  "config_reglas =
     config_solo_duplicados
       \<lparr>validacion_datos :=
          \<lparr>val_habilitada = True,
           rangos_numericos = [(''a'', \<lparr>rango_min = Some 5, rango_max = None\<rparr>)],
           valores_permitidos = [(''b'', [Texto ''k''])],
           longitud_texto = []\<rparr>\<rparr>"

definition datos_mixtos :: "registro list" where
  "datos_mixtos =
     [[(''a'', Num 1), (''b'', Texto ''k'')], [(''a'', Texto ''s''), (''b'', Texto ''z'')]]"


definition config_imputar :: configuracion_limpieza where
  "config_imputar =
     config_solo_duplicados
       \<lparr>manejo_nulos := \<lparr>estrategia = ''imputar'', imputacion = ''media'', valor_fijo = Nulo\<rparr>,
        manejo_duplicados := \<lparr>dup_habilitado = True, mantener = ''primero'', subset = Some [''b'']\<rparr>\<rparr>"

definition datos_imputar :: "registro list" where
  "datos_imputar =
     [[(''a'', Num 1), (''b'', Texto ''p'')], [(''a'', Nulo), (''b'', Texto ''q'')],
      [(''a'', Texto ''x''), (''b'', Texto ''p'')]]"

section \<open>Properties\<close>

text \<open>
  C10. For the empty record set the quality scorer returns completeness 0, consistency 0
  and precision 0, and a run whose transformation phase leaves no record reports these
  three zeros.
\<close>

theorem C10_metricas_vacio:
  "completitud (calcular_metricas_calidad []) = 0
   \<and> consistencia (calcular_metricas_calidad []) = 0
   \<and> precision (calcular_metricas_calidad []) = 0
   \<and> (fases ej p s0 = (Inr (ext, [], arch), s) \<longrightarrow>
        completitud_datos (fst (ejecutar reloj ej p s0)) = 0
        \<and> consistencia_datos (fst (ejecutar reloj ej p s0)) = 0
        \<and> precision_datos (fst (ejecutar reloj ej p s0)) = 0)"
  by (simp add: calcular_metricas_calidad_def ejecutar_def Let_def)

theorem C10_metricas_vacio_witness:
  "fases ejecutor_vaciador None () = (Inr ([registro_a], [], []), ())
   \<and> completitud_datos (fst (ejecutar reloj_cero ejecutor_vaciador None ())) = 0
   \<and> consistencia_datos (fst (ejecutar reloj_cero ejecutor_vaciador None ())) = 0
   \<and> precision_datos (fst (ejecutar reloj_cero ejecutor_vaciador None ())) = 0"
proof -
  have f: "fases ejecutor_vaciador None () = (Inr ([registro_a], [], []), ())"
    by (simp add: fases_def ejecutar_extraccion_def ejecutar_validacion_entrada_def
      ejecutar_transformacion_def ejecutar_validacion_salida_def ejecutar_carga_def
      ejecutor_vaciador_def EjecutorPipeline_def cfg_pipeline_def extractor_constante_def
      transformador_vaciador_def)
  with C10_metricas_vacio [of ejecutor_vaciador None "()" "[registro_a]" "[]" "()" reloj_cero]
  show ?thesis by simp
qed


lemma bucle_extraccion_append:
  "bucle_extraccion previos p acc s0 = (Inr datos, s1) \<Longrightarrow>
   bucle_extraccion (previos @ resto) p acc s0 = bucle_extraccion resto p datos s1"
proof (induction previos arbitrary: acc s0)
  case Nil
  then show ?case by simp
next
  case (Cons x xs)
  obtain r s' where ex: "extraer x p s0 = (r, s')" by (cases "extraer x p s0")
  show ?case
  proof (cases r)
    case (Inl e)
    with Cons.prems ex show ?thesis by simp
  next
    case (Inr ds)
    with Cons.prems ex have "bucle_extraccion xs p (acc @ ds) s' = (Inr datos, s1)" by simp
    from Cons.IH [OF this] ex Inr show ?thesis by simp
  qed
qed

text \<open>
  C1. In every run in which a registered extractor raises (the extractors before it, if
  any, having returned), \<open>ejecutar\<close> returns a result whose \<open>errores\<close> is the one-element
  list holding the text of the exception and whose \<open>registros_procesados\<close> and
  \<open>registros_exitosos\<close> are both 0; nothing is propagated (the result of \<open>ejecutar\<close> is
  a \<open>resultado_pipeline\<close> on every path), and the world is as the failing call left it.
\<close>

theorem C1_extractor_que_falla:
  assumes "extractores ej = previos @ x # resto"
    and "bucle_extraccion previos p [] s0 = (Inr datos, s1)"
    and "extraer x p s1 = (Inl e, s2)"
  shows "errores (fst (ejecutar reloj ej p s0)) = [str_e e]
         \<and> length (errores (fst (ejecutar reloj ej p s0))) = 1
         \<and> registros_procesados (fst (ejecutar reloj ej p s0)) = 0
         \<and> registros_exitosos (fst (ejecutar reloj ej p s0)) = 0
         \<and> snd (ejecutar reloj ej p s0) = s2"
proof -
  have "ejecutar_extraccion ej p s0 = (Inl e, s2)"
    using assms bucle_extraccion_append [OF assms(2), of "x # resto"]
    by (simp add: ejecutar_extraccion_def)
  then have "fases ej p s0 = (Inl e, s2)"
    by (simp add: fases_def)
  then show ?thesis
    by (simp add: ejecutar_def Let_def)
qed

text \<open>
  The scenario of the specification: one extractor registered twice that raises on its
  second call.
\<close>

theorem C1_extractor_que_falla_witness:
  "errores (fst (ejecutar reloj_cero ejecutor_dos_extracciones None 0)) = [''fuente agotada'']
   \<and> registros_procesados (fst (ejecutar reloj_cero ejecutor_dos_extracciones None 0)) = 0
   \<and> registros_exitosos (fst (ejecutar reloj_cero ejecutor_dos_extracciones None 0)) = 0
   \<and> snd (ejecutar reloj_cero ejecutor_dos_extracciones None 0) = 2"
proof -
  have a: "extractores ejecutor_dos_extracciones
             = [extractor_segunda_llamada] @ extractor_segunda_llamada # []"
    by (simp add: ejecutor_dos_extracciones_def EjecutorPipeline_def)
  have b: "bucle_extraccion [extractor_segunda_llamada] None [] 0 = (Inr [registro_a], Suc 0)"
    by (simp add: extractor_segunda_llamada_def)
  have c: "extraer extractor_segunda_llamada None (Suc 0)
             = (Inl (Excepcion ErrorExtraccion ''fuente agotada''), 2)"
    by (simp add: extractor_segunda_llamada_def)
  from C1_extractor_que_falla [OF a b c, of reloj_cero] show ?thesis by simp
qed

text \<open>
  C2, as stated, fails: with one record extracted, no transformer and a loader that
  raises, the transformation phase ends with one record and the result reports
  \<open>registros_exitosos = 0\<close>.
\<close>

theorem C2_counterexample:
  "ejecutar_transformacion ejecutor_carga_rota [registro_a] () = (Inr [registro_a], ())
   \<and> ejecutar_carga ejecutor_carga_rota [registro_a] ()
       = (Inl (Excepcion ErrorCarga ''disco lleno''), ())
   \<and> registros_exitosos (fst (ejecutar reloj_cero ejecutor_carga_rota None ())) = 0
   \<and> registros_exitosos (fst (ejecutar reloj_cero ejecutor_carga_rota None ()))
       \<noteq> int (length [registro_a])"
  by (simp add: ejecutar_def fases_def ejecutar_extraccion_def ejecutar_validacion_entrada_def
      ejecutar_transformacion_def ejecutar_validacion_salida_def ejecutar_carga_def
      ejecutor_carga_rota_def EjecutorPipeline_def cfg_pipeline_def extractor_constante_def
      cargador_roto_def Let_def)

text \<open>
  C2, amended. In every run in which extraction, validation and transformation complete
  and a loader then raises, the result is the one of the exception handler:
  \<open>registros_exitosos\<close> and \<open>registros_procesados\<close> are 0 (the count of the
  transformation phase is not kept), \<open>archivos_salida\<close> is empty and \<open>errores\<close> holds
  exactly the text of the loader's exception.
\<close>

theorem C2_carga_que_falla:
  assumes "ejecutar_extraccion ej p s0 = (Inr datos_extraidos, s1)"
    and "(if validar_entrada_cfg (configuracion ej)
          then ejecutar_validacion_entrada ej datos_extraidos s1 else (Inr (), s1)) = (Inr (), s2)"
    and "ejecutar_transformacion ej datos_extraidos s2 = (Inr datos_transformados, s3)"
    and "(if validar_salida_cfg (configuracion ej)
          then ejecutar_validacion_salida ej datos_transformados s3 else (Inr (), s3)) = (Inr (), s4)"
    and "ejecutar_carga ej datos_transformados s4 = (Inl e, s5)"
  shows "registros_exitosos (fst (ejecutar reloj ej p s0)) = 0
         \<and> registros_procesados (fst (ejecutar reloj ej p s0)) = 0
         \<and> archivos_salida (fst (ejecutar reloj ej p s0)) = []
         \<and> errores (fst (ejecutar reloj ej p s0)) = [str_e e]
         \<and> snd (ejecutar reloj ej p s0) = s5"
proof -
  have "fases ej p s0 = (Inl e, s5)"
    unfolding fases_def by (simp only: assms prod.case sum.case)
  then show ?thesis by (simp add: ejecutar_def Let_def)
qed

theorem C2_carga_que_falla_witness:
  "registros_exitosos (fst (ejecutar reloj_cero ejecutor_carga_rota None ())) = 0
   \<and> archivos_salida (fst (ejecutar reloj_cero ejecutor_carga_rota None ())) = []
   \<and> errores (fst (ejecutar reloj_cero ejecutor_carga_rota None ())) = [''disco lleno'']"
proof -
  have "registros_exitosos (fst (ejecutar reloj_cero ejecutor_carga_rota None ())) = 0
         \<and> registros_procesados (fst (ejecutar reloj_cero ejecutor_carga_rota None ())) = 0
         \<and> archivos_salida (fst (ejecutar reloj_cero ejecutor_carga_rota None ())) = []
         \<and> errores (fst (ejecutar reloj_cero ejecutor_carga_rota None ()))
             = [str_e (Excepcion ErrorCarga ''disco lleno'')]
         \<and> snd (ejecutar reloj_cero ejecutor_carga_rota None ()) = ()"
    by (rule C2_carga_que_falla [where ?datos_extraidos = "[registro_a]"
          and ?datos_transformados = "[registro_a]" and ?s1.0 = "()" and ?s2.0 = "()"
          and ?s3.0 = "()" and ?s4.0 = "()"])
       (simp_all add: ejecutar_extraccion_def ejecutar_validacion_entrada_def
          ejecutar_transformacion_def ejecutar_validacion_salida_def ejecutar_carga_def
          ejecutor_carga_rota_def EjecutorPipeline_def cfg_pipeline_def extractor_constante_def
          cargador_roto_def)
  then show ?thesis by simp
qed

text \<open>
  C3, as stated, fails: a transformer that returns each record twice gives a success
  rate of 2.
\<close>

theorem C3_counterexample:
  "tasa_exito (fst (ejecutar reloj_cero ejecutor_duplicador None ())) = 2
   \<and> \<not> tasa_exito (fst (ejecutar reloj_cero ejecutor_duplicador None ())) \<le> 1"
  by (simp add: ejecutar_def fases_def ejecutar_extraccion_def ejecutar_validacion_entrada_def
      ejecutar_transformacion_def ejecutar_validacion_salida_def ejecutar_carga_def
      ejecutor_duplicador_def EjecutorPipeline_def cfg_pipeline_def extractor_constante_def
      transformador_duplicador_def Let_def)

text \<open>
  C3, amended. For every run, \<open>registros_fallidos = registros_procesados -
  registros_exitosos\<close>, the success rate is not negative and equals
  \<open>registros_exitosos / registros_procesados\<close> (0 when \<open>registros_procesados\<close> is 0); it
  is at most 1 whenever the transformers return no more records than were extracted.
\<close>

theorem C3_cuentas_del_resultado:
  "registros_fallidos (fst (ejecutar reloj ej p s0))
     = registros_procesados (fst (ejecutar reloj ej p s0))
       - registros_exitosos (fst (ejecutar reloj ej p s0))
   \<and> 0 \<le> tasa_exito (fst (ejecutar reloj ej p s0))
   \<and> tasa_exito (fst (ejecutar reloj ej p s0))
       = (if registros_procesados (fst (ejecutar reloj ej p s0)) = 0 then 0
          else of_int (registros_exitosos (fst (ejecutar reloj ej p s0)))
               / of_int (registros_procesados (fst (ejecutar reloj ej p s0))))
   \<and> (registros_exitosos (fst (ejecutar reloj ej p s0))
        \<le> registros_procesados (fst (ejecutar reloj ej p s0))
      \<longrightarrow> tasa_exito (fst (ejecutar reloj ej p s0)) \<le> 1)"
proof (cases "fases ej p s0")
  case (Pair r s)
  show ?thesis
  proof (cases r)
    case (Inl e)
    with Pair show ?thesis by (simp add: ejecutar_def Let_def)
  next
    case (Inr t)
    obtain ext dt arch where t: "t = (ext, dt, arch)" by (cases t)
    with Pair Inr show ?thesis
      by (simp add: ejecutar_def Let_def divide_le_eq_1)
  qed
qed

theorem C3_cuentas_del_resultado_witness:
  "registros_fallidos (fst (ejecutar reloj_cero ejecutor_vaciador None ())) = 1
   \<and> tasa_exito (fst (ejecutar reloj_cero ejecutor_vaciador None ())) = 0"
proof -
  have e: "registros_procesados (fst (ejecutar reloj_cero ejecutor_vaciador None ())) = 1
     \<and> registros_exitosos (fst (ejecutar reloj_cero ejecutor_vaciador None ())) = 0"
    by (simp add: ejecutar_def fases_def ejecutar_extraccion_def ejecutar_validacion_entrada_def
      ejecutar_transformacion_def ejecutar_validacion_salida_def ejecutar_carga_def
      ejecutor_vaciador_def EjecutorPipeline_def cfg_pipeline_def extractor_constante_def
      transformador_vaciador_def Let_def)
  with C3_cuentas_del_resultado [of reloj_cero ejecutor_vaciador None "()"]
  show ?thesis by simp
qed

text \<open>
  C9. The outlier stage with the IQR method and factor 1.5, on a frame whose single
  numeric column (of any name, taken by default or named in the configuration) holds
  10, 12, 11, 13, 1000 in that order, removes exactly the row with 1000 and keeps the
  other four in order.
\<close>

theorem C9_iqr:
  assumes "metodo (manejo_outliers cfg) = ''iqr''"
    and "factor (manejo_outliers cfg) = 3 / 2"
    and "columnas_numericas (manejo_outliers cfg) = None
         \<or> columnas_numericas (manejo_outliers cfg) = Some [c]"
  shows "manejar_outliers cfg
           (DataFrame [[(c, Num 10)], [(c, Num 12)], [(c, Num 11)], [(c, Num 13)], [(c, Num 1000)]])
         = \<lparr>columnas = [(c, DNumerico)],
            filas = [[(c, Num 10)], [(c, Num 12)], [(c, Num 11)], [(c, Num 13)]]\<rparr>"
proof -
  let ?datos = "[[(c, Num 10)], [(c, Num 12)], [(c, Num 11)], [(c, Num 13)], [(c, Num 1000)]]"
  have df: "DataFrame ?datos = \<lparr>columnas = [(c, DNumerico)], filas = ?datos\<rparr>"
    by (simp add: DataFrame_def claves_def celda_def inferir_dtype_def convertir_def)
  have q1: "quantile [10, 12, 11, 13, 1000] (1 / 4) = Some 11"
    by (simp add: quantile_def Let_def)
  have q3: "quantile [10, 12, 11, 13, 1000] (3 / 4) = Some 13"
    by (simp add: quantile_def Let_def)
  have s: "serie \<lparr>columnas = [(c, DNumerico)], filas = ?datos\<rparr> c
             = [Num 10, Num 12, Num 11, Num 13, Num 1000]"
    by (simp add: serie_def celda_def)
  have n: "numeros [Num 10, Num 12, Num 11, Num 13, Num 1000] = [10, 12, 11, 13, 1000]"
    by (simp add: numeros_def List.map_filter_def)
  have f: "\<And>x. fuera_iqr (3 / 2) [Num 10, Num 12, Num 11, Num 13, Num 1000] (Num x)
             = (x < 8 \<or> 16 < x)"
    by (simp add: fuera_iqr_def n q1 q3 Let_def)
  from assms(3) show ?thesis
    by (auto simp add: manejar_outliers_def df assms(1,2) en_columnas_def dtype_de_def
        s f filtrar_filas_def celda_def Let_def)
qed

theorem C9_iqr_witness:
  "to_dict_records (manejar_outliers configuracion_default (DataFrame datos_iqr))
     = [[(''v'', Num 10)], [(''v'', Num 12)], [(''v'', Num 11)], [(''v'', Num 13)]]"
proof -
  have "manejar_outliers configuracion_default (DataFrame datos_iqr)
          = \<lparr>columnas = [(''v'', DNumerico)],
             filas = [[(''v'', Num 10)], [(''v'', Num 12)], [(''v'', Num 11)], [(''v'', Num 13)]]\<rparr>"
    unfolding datos_iqr_def
    by (rule C9_iqr) (simp_all add: configuracion_default_def)
  then show ?thesis by (simp add: to_dict_records_def)
qed

text \<open>
  C7, as stated, fails: with null strategy \<open>eliminar\<close>, duplicates \<open>primero\<close>, outliers
  disabled and every other setting at its default, text normalisation is enabled and
  lower-cases: the output is not the record with \<open>b = X\<close>.
\<close>

theorem C7_counterexample:
  "transformar_limpieza biblioteca_sin_fechas config_sin_outliers datos_escenario
     \<noteq> Inr [[(''a'', Num 1), (''b'', Texto ''X'')]]"
  by code_simp

text \<open>The scenario of C7, stage by stage.\<close>

lemma escenario_nulos:
  "manejar_valores_nulos config_sin_outliers (DataFrame datos_escenario)
     = Inr \<lparr>columnas = [(''a'', DNumerico), (''b'', DObjeto)],
            filas = [[(''a'', Num 1), (''b'', Texto ''X'')], [(''a'', Num 1), (''b'', Texto ''X'')]]\<rparr>"
  by code_simp

lemma escenario_cadena:
  "normalizar_cadena (normalizacion_texto config_sin_outliers) ''X'' = ''x''"
  by code_simp

lemma escenario_texto:
  "normalizar_texto bib config_sin_outliers
     \<lparr>columnas = [(''a'', DNumerico), (''b'', DObjeto)],
      filas = [[(''a'', Num 1), (''b'', Texto ''X'')], [(''a'', Num 1), (''b'', Texto ''X'')]]\<rparr>
   = \<lparr>columnas = [(''a'', DNumerico), (''b'', DObjeto)],
      filas = [[(''a'', Num 1), (''b'', Texto ''x'')], [(''a'', Num 1), (''b'', Texto ''x'')]]\<rparr>"
  by (simp add: normalizar_texto_def serie_def celda_def asignar_def escenario_cadena)

lemma escenario_fechas:
  assumes "fechas_columna bib (normalizacion_fechas config_sin_outliers)
             [Texto ''x'', Texto ''x''] = None"
  shows "normalizar_fechas bib config_sin_outliers
     \<lparr>columnas = [(''a'', DNumerico), (''b'', DObjeto)],
      filas = [[(''a'', Num 1), (''b'', Texto ''x'')], [(''a'', Num 1), (''b'', Texto ''x'')]]\<rparr>
   = \<lparr>columnas = [(''a'', DNumerico), (''b'', DObjeto)],
      filas = [[(''a'', Num 1), (''b'', Texto ''x'')], [(''a'', Num 1), (''b'', Texto ''x'')]]\<rparr>"
  using assms by (simp add: normalizar_fechas_def serie_def celda_def)

lemma escenario_duplicados:
  "manejar_duplicados config_sin_outliers
     \<lparr>columnas = [(''a'', DNumerico), (''b'', DObjeto)],
      filas = [[(''a'', Num 1), (''b'', Texto ''x'')], [(''a'', Num 1), (''b'', Texto ''x'')]]\<rparr>
   = Inr \<lparr>columnas = [(''a'', DNumerico), (''b'', DObjeto)],
          filas = [[(''a'', Num 1), (''b'', Texto ''x'')]]\<rparr>"
  by code_simp

lemma escenario_validar:
  "validar_datos config_sin_outliers df = df"
  by (simp add: validar_datos_def config_sin_outliers_def configuracion_default_def)

lemma escenario_config:
  "validar_configuracion_limpieza config_sin_outliers = Inr True"
  "txt_habilitada (normalizacion_texto config_sin_outliers)"
  "fec_habilitada (normalizacion_fechas config_sin_outliers)"
  "dup_habilitado (manejo_duplicados config_sin_outliers)"
  "\<not> out_habilitado (manejo_outliers config_sin_outliers)"
  "val_habilitada (validacion_datos config_sin_outliers)"
  by (simp_all add: validar_configuracion_limpieza_def config_sin_outliers_def
      configuracion_default_def)

text \<open>
  C7, amended. Under that configuration, and with a date parser that rejects the column
  \<open>[x, x]\<close>, the three records of the scenario give exactly one record, \<open>a = 1\<close> and
  \<open>b = x\<close> (lower-cased); three records in, one out.
\<close>

theorem C7_escenario:
  assumes "fechas_columna bib (normalizacion_fechas config_sin_outliers)
             [Texto ''x'', Texto ''x''] = None"
  shows "transformar_limpieza bib config_sin_outliers datos_escenario
           = Inr [[(''a'', Num 1), (''b'', Texto ''x'')]]
         \<and> length datos_escenario = 3
         \<and> length [[(''a'', Num 1), (''b'', Texto ''x'')]] = 1"
proof -
  have "aplicar_limpieza bib config_sin_outliers (DataFrame datos_escenario)
          = Inr \<lparr>columnas = [(''a'', DNumerico), (''b'', DObjeto)],
                 filas = [[(''a'', Num 1), (''b'', Texto ''x'')]]\<rparr>"
    by (simp add: aplicar_limpieza_def escenario_nulos escenario_texto
        escenario_fechas [OF assms] escenario_duplicados escenario_validar escenario_config)
  then show ?thesis
    by (simp add: transformar_limpieza_def escenario_config to_dict_records_def
        datos_escenario_def)
qed

theorem C7_escenario_witness:
  "transformar_limpieza biblioteca_sin_fechas config_sin_outliers datos_escenario
     = Inr [[(''a'', Num 1), (''b'', Texto ''x'')]]
   \<and> registros_procesados (fst (ejecutar reloj_cero ejecutor_escenario None ())) = 3
   \<and> registros_exitosos (fst (ejecutar reloj_cero ejecutor_escenario None ())) = 1"
proof -
  have h: "fechas_columna biblioteca_sin_fechas (normalizacion_fechas config_sin_outliers)
             [Texto ''x'', Texto ''x''] = None"
    by (simp add: biblioteca_sin_fechas_def)
  have t: "transformar_limpieza biblioteca_sin_fechas config_sin_outliers datos_escenario
             = Inr [[(''a'', Num 1), (''b'', Texto ''x'')]]"
    using C7_escenario [OF h] by simp
  have "fases ejecutor_escenario None ()
          = (Inr (datos_escenario, [[(''a'', Num 1), (''b'', Texto ''x'')]], []), ())"
    by (simp add: fases_def ejecutar_extraccion_def ejecutar_validacion_entrada_def
      ejecutar_transformacion_def ejecutar_validacion_salida_def ejecutar_carga_def
      ejecutor_escenario_def EjecutorPipeline_def cfg_pipeline_def extractor_constante_def
      TransformadorLimpieza_def t)
  then have "registros_procesados (fst (ejecutar reloj_cero ejecutor_escenario None ())) = 3
   \<and> registros_exitosos (fst (ejecutar reloj_cero ejecutor_escenario None ())) = 1"
    by (simp add: ejecutar_def Let_def datos_escenario_def)
  with t show ?thesis by simp
qed

text \<open>
  C6, as stated, fails: a cleansing transformer whose null strategy is the unknown
  \<open>borrar\<close> has a configuration that \<open>validar_configuracion\<close> rejects, and
  \<open>agregar_transformador\<close> returns normally with the transformer registered.
\<close>

theorem C6_counterexample:
  "validar_configuracion
     (TransformadorLimpieza biblioteca_sin_fechas ''LimpiezaDatos'' config_invalida
        :: unit transformador)
     = Inl (Excepcion ErrorConfiguracion (''Estrategia de nulos inv'' @ a_tilde @ ''lida: borrar''))
   \<and> agregar_transformador
       (TransformadorLimpieza biblioteca_sin_fechas ''LimpiezaDatos'' config_invalida)
       (EjecutorPipeline cfg_pipeline :: unit ejecutor_pipeline)
     = Inr ((EjecutorPipeline cfg_pipeline)
              \<lparr>transformadores :=
                 [TransformadorLimpieza biblioteca_sin_fechas ''LimpiezaDatos'' config_invalida]\<rparr>)"
  by (simp add: TransformadorLimpieza_def validar_configuracion_limpieza_def config_invalida_def
      configuracion_default_def agregar_transformador_def EjecutorPipeline_def)

text \<open>
  C6, amended. Registration never raises: it appends the transformer whatever its
  configuration. A cleansing transformer whose configuration \<open>validar_configuracion\<close>
  rejects fails at each call of \<open>transformar\<close>, with an \<open>ErrorTransformacion\<close> that wraps
  the text of the configuration error, and a run that reaches it returns the failure
  result with that text as its one error.
\<close>

theorem C6_validacion_tardia:
  assumes "validar_configuracion_limpieza cfg = Inl e"
    and "transformadores ej = TransformadorLimpieza bib n cfg # ts"
    and "ejecutar_extraccion ej p s0 = (Inr datos_extraidos, s1)"
    and "(if validar_entrada_cfg (configuracion ej)
          then ejecutar_validacion_entrada ej datos_extraidos s1 else (Inr (), s1)) = (Inr (), s2)"
  shows "agregar_transformador (TransformadorLimpieza bib n cfg) ej0
           = Inr (ej0\<lparr>transformadores := transformadores ej0 @ [TransformadorLimpieza bib n cfg]\<rparr>)
         \<and> transformar (TransformadorLimpieza bib n cfg) datos s
           = (Inl (Excepcion ErrorTransformacion
                     (''Error en transformaci'' @ o_tilde @ ''n de limpieza: '' @ str_e e)), s)
         \<and> errores (fst (ejecutar reloj ej p s0))
           = [''Error en transformaci'' @ o_tilde @ ''n de limpieza: '' @ str_e e]"
proof -
  have t: "\<And>datos s. transformar (TransformadorLimpieza bib n cfg) datos s
           = (Inl (Excepcion ErrorTransformacion
                     (''Error en transformaci'' @ o_tilde @ ''n de limpieza: '' @ str_e e)), s)"
    by (simp add: TransformadorLimpieza_def transformar_limpieza_def assms(1))
  have "ejecutar_transformacion ej datos_extraidos s2
          = (Inl (Excepcion ErrorTransformacion
                     (''Error en transformaci'' @ o_tilde @ ''n de limpieza: '' @ str_e e)), s2)"
    by (simp add: ejecutar_transformacion_def assms(2) t)
  then have "fases ej p s0
          = (Inl (Excepcion ErrorTransformacion
                     (''Error en transformaci'' @ o_tilde @ ''n de limpieza: '' @ str_e e)), s2)"
    unfolding fases_def by (simp only: assms(3,4) prod.case sum.case)
  then show ?thesis
    by (simp add: ejecutar_def Let_def t agregar_transformador_def)
qed

theorem C6_validacion_tardia_witness:
  "errores (fst (ejecutar reloj_cero ejecutor_invalido None ()))
     = [''Error en transformaci'' @ o_tilde @ ''n de limpieza: Estrategia de nulos inv''
        @ a_tilde @ ''lida: borrar'']"
proof -
  have a: "validar_configuracion_limpieza config_invalida
      = Inl (Excepcion ErrorConfiguracion (''Estrategia de nulos inv'' @ a_tilde @ ''lida: borrar''))"
    by (simp add: validar_configuracion_limpieza_def config_invalida_def
      configuracion_default_def)
  have b: "transformadores ejecutor_invalido
      = TransformadorLimpieza biblioteca_sin_fechas ''LimpiezaDatos'' config_invalida # []"
    by (simp add: ejecutor_invalido_def EjecutorPipeline_def)
  have c: "ejecutar_extraccion ejecutor_invalido None () = (Inr [registro_a], ())"
    by (simp add: ejecutar_extraccion_def ejecutor_invalido_def EjecutorPipeline_def
        extractor_constante_def)
  have d: "(if validar_entrada_cfg (configuracion ejecutor_invalido)
          then ejecutar_validacion_entrada ejecutor_invalido [registro_a] ()
          else (Inr (), ())) = (Inr (), ())"
    by (simp add: ejecutar_validacion_entrada_def ejecutor_invalido_def EjecutorPipeline_def)
  from C6_validacion_tardia [where reloj = reloj_cero and ?ej0.0 = ejecutor_invalido
      and datos = "[]" and s = "()", OF a b c d]
  show ?thesis by simp
qed


text \<open>
  The mask of \<open>duplicated(keep='first')\<close> by positions: a row is marked exactly when its
  key was seen before it.
\<close>

lemma marcar_primero_indices:
  "marcar_primero vistos ks
     = map (\<lambda>i. ks ! i \<in> set vistos \<union> set (take i ks)) [0..<length ks]"
proof (induction ks arbitrary: vistos)
  case Nil
  then show ?case by simp
next
  case (Cons k ks)
  show ?case
  proof (cases "k \<in> set vistos")
    case True
    then have "set vistos \<union> set (k # ys) = set vistos \<union> set ys" for ys by auto
    with True Cons.IH [of vistos] show ?thesis
      by (auto simp add: map_upt_Suc simp del: upt_Suc)
  next
    case False
    have "set (k # vistos) \<union> set ys = set vistos \<union> set (k # ys)" for ys by auto
    with False Cons.IH [of "k # vistos"] show ?thesis
      by (auto simp add: map_upt_Suc simp del: upt_Suc)
  qed
qed

lemma conservar_indices:
  "conservar (map g [0..<length xs]) xs = map ((!) xs) (filter (\<lambda>i. \<not> g i) [0..<length xs])"
proof -
  have "zip (map g [0..<length xs]) xs
          = zip (map g [0..<length xs]) (map ((!) xs) [0..<length xs])"
    by (simp add: map_nth)
  also have "\<dots> = map (\<lambda>i. (g i, xs ! i)) [0..<length xs]"
    by (simp add: zip_map_map zip_same_conv_map)
  finally show ?thesis
    by (simp add: conservar_def filter_map comp_def)
qed

lemma visto_antes:
  assumes "i < length ks"
  shows "ks ! i \<in> set (take i ks) \<longleftrightarrow> (\<exists>j<i. ks ! j = ks ! i)"
proof
  assume "ks ! i \<in> set (take i ks)"
  then obtain j where "j < length (take i ks)" "take i ks ! j = ks ! i"
    by (auto simp: in_set_conv_nth)
  with assms show "\<exists>j<i. ks ! j = ks ! i" by auto
next
  assume "\<exists>j<i. ks ! j = ks ! i"
  then obtain j where j: "j < i" "ks ! j = ks ! i" by blast
  with assms have "take i ks ! j = ks ! i" "j < length (take i ks)" by auto
  then show "ks ! i \<in> set (take i ks)" by (metis nth_mem)
qed

lemma conservar_primero:
  "conservar (marcar_primero [] (map f xs)) xs
     = map ((!) xs) (filter (\<lambda>i. \<forall>j<i. f (xs ! j) \<noteq> f (xs ! i)) [0..<length xs])"
proof -
  have "conservar (marcar_primero [] (map f xs)) xs
          = map ((!) xs)
              (filter (\<lambda>i. \<not> (map f xs ! i \<in> set (take i (map f xs)))) [0..<length xs])"
    using conservar_indices [of "\<lambda>i. map f xs ! i \<in> set (take i (map f xs))" xs]
    by (simp add: marcar_primero_indices)
  also have "filter (\<lambda>i. \<not> (map f xs ! i \<in> set (take i (map f xs)))) [0..<length xs]
          = filter (\<lambda>i. \<forall>j<i. f (xs ! j) \<noteq> f (xs ! i)) [0..<length xs]"
  proof (rule filter_cong [OF refl])
    fix i assume "i \<in> set [0..<length xs]"
    then have i: "i < length (map f xs)" by simp
    from visto_antes [OF i] i
    show "(\<not> (map f xs ! i \<in> set (take i (map f xs)))) = (\<forall>j<i. f (xs ! j) \<noteq> f (xs ! i))"
      by auto
  qed
  finally show ?thesis .
qed

text \<open>
  C8, as stated, fails on a record set without fields: the two rows of the frame built
  from two empty records have the same (empty) key, and the stage returns the frame as it
  is, both rows in it (\<open>drop_duplicates\<close> returns an empty frame untouched).
\<close>

theorem C8_counterexample:
  "filas (DataFrame datos_sin_campos) = [[], []]
   \<and> clave_fila (nombres (DataFrame datos_sin_campos)) (filas (DataFrame datos_sin_campos) ! 0)
       = clave_fila (nombres (DataFrame datos_sin_campos)) (filas (DataFrame datos_sin_campos) ! 1)
   \<and> manejar_duplicados configuracion_default (DataFrame datos_sin_campos)
       = Inr (DataFrame datos_sin_campos)"
  by (simp add: datos_sin_campos_def DataFrame_def claves_def manejar_duplicados_def
      empty_df_def nombres_def clave_fila_def)

text \<open>
  C8, amended. Under the policy \<open>primero\<close>, with the key columns \<open>cs\<close> of the whole record
  or of the configured subset, the stage keeps of a frame that has rows and columns
  exactly the rows that no earlier row equals under the key, in their original order: of
  the rows with one key only the one of lowest index survives. A frame without rows or
  without columns is returned as it is.
\<close>

theorem C8_mantener_primero:
  assumes "mantener (manejo_duplicados cfg) = ''primero''"
  shows "(empty_df df \<longrightarrow> manejar_duplicados cfg df = Inr df)
         \<and> (\<not> empty_df df \<and> columnas_clave df (subset (manejo_duplicados cfg)) = Inr cs \<longrightarrow>
              manejar_duplicados cfg df
                = Inr (df\<lparr>filas :=
                        map ((!) (filas df))
                          (filter (\<lambda>i. \<forall>j<i. clave_fila cs (filas df ! j)
                                                 \<noteq> clave_fila cs (filas df ! i))
                             [0..<length (filas df)])\<rparr>))"
  using assms by (simp add: manejar_duplicados_def conservar_primero Let_def)

theorem C8_mantener_primero_witness:
  "manejar_duplicados config_subset_k (DataFrame datos_repetidos)
     = Inr ((DataFrame datos_repetidos)
              \<lparr>filas := [[(''k'', Num 1), (''v'', Texto ''a'')], [(''k'', Num 2), (''v'', Texto ''b'')]]\<rparr>)"
proof -
  have m: "mantener (manejo_duplicados config_subset_k) = ''primero''"
    by (simp add: config_subset_k_def configuracion_default_def)
  have df: "DataFrame datos_repetidos
              = \<lparr>columnas = [(''k'', DNumerico), (''v'', DObjeto)], filas = datos_repetidos\<rparr>"
    by code_simp
  have e: "\<not> empty_df (DataFrame datos_repetidos)"
    using df by (simp add: empty_df_def datos_repetidos_def)
  have c: "columnas_clave (DataFrame datos_repetidos) (subset (manejo_duplicados config_subset_k))
             = Inr [''k'']"
    using df by (simp add: columnas_clave_def config_subset_k_def configuracion_default_def
        en_columnas_def nombres_def datos_repetidos_def)
  have f: "filter (\<lambda>i. \<forall>j<i. clave_fila [''k''] (datos_repetidos ! j)
                            \<noteq> clave_fila [''k''] (datos_repetidos ! i)) [0..<3] = [0, 1]"
    by (simp add: upt_rec [of 0] upt_rec [of 1] upt_rec [of 2] datos_repetidos_def clave_fila_def
        celda_def less_Suc_eq all_conj_distrib numeral_3_eq_3 numeral_2_eq_2)
  from C8_mantener_primero [OF m, of "DataFrame datos_repetidos" "[''k'']"] e c
  have "manejar_duplicados config_subset_k (DataFrame datos_repetidos)
                = Inr ((DataFrame datos_repetidos)\<lparr>filas :=
                        map ((!) (filas (DataFrame datos_repetidos)))
                          (filter (\<lambda>i. \<forall>j<i. clave_fila [''k''] (filas (DataFrame datos_repetidos) ! j)
                                                 \<noteq> clave_fila [''k''] (filas (DataFrame datos_repetidos) ! i))
                             [0..<length (filas (DataFrame datos_repetidos))])\<rparr>)"
    by simp
  also have "filas (DataFrame datos_repetidos) = datos_repetidos" by (simp add: df)
  also have "length datos_repetidos = 3" by (simp add: datos_repetidos_def)
  finally have "manejar_duplicados config_subset_k (DataFrame datos_repetidos)
                = Inr ((DataFrame datos_repetidos)\<lparr>filas :=
                        map ((!) datos_repetidos)
                          (filter (\<lambda>i. \<forall>j<i. clave_fila [''k''] (datos_repetidos ! j)
                                                 \<noteq> clave_fila [''k''] (datos_repetidos ! i))
                             [0..<3])\<rparr>)" .
  then show ?thesis unfolding f by (simp add: datos_repetidos_def)
qed

text \<open>
  Rounding to two decimals keeps a score between 0 and 100.
\<close>

lemma round_mitad_par_cotas:
  assumes "0 \<le> x" and "x \<le> of_int n"
  shows "0 \<le> round_mitad_par x \<and> round_mitad_par x \<le> n"
proof -
  have f0: "0 \<le> \<lfloor>x\<rfloor>" using assms(1) by simp
  have fn: "\<lfloor>x\<rfloor> \<le> n" using assms(2) by (simp add: floor_le_iff)
  show ?thesis
  proof (cases "x = of_int \<lfloor>x\<rfloor>")
    case True
    then have "x - of_int \<lfloor>x\<rfloor> = 0" by simp
    then have "round_mitad_par x = \<lfloor>x\<rfloor>" by (simp add: round_mitad_par_def Let_def)
    with f0 fn show ?thesis by simp
  next
    case False
    then have ne: "of_int \<lfloor>x\<rfloor> \<noteq> x" by (rule not_sym)
    have "of_int \<lfloor>x\<rfloor> < x" by (rule le_neq_trans [OF of_int_floor_le ne])
    from this assms(2) have "(of_int \<lfloor>x\<rfloor> :: rat) < of_int n" by (rule less_le_trans)
    then have "\<lfloor>x\<rfloor> < n" by (simp only: of_int_less_iff)
    moreover have "round_mitad_par x = \<lfloor>x\<rfloor> \<or> round_mitad_par x = \<lfloor>x\<rfloor> + 1"
      by (simp add: round_mitad_par_def Let_def)
    ultimately show ?thesis using f0 by auto
  qed
qed

lemma round2_cotas:
  assumes "0 \<le> x" and "x \<le> 100"
  shows "0 \<le> round2 x \<and> round2 x \<le> 100"
proof -
  have "0 \<le> x * 100" "x * 100 \<le> of_int 10000" using assms by simp_all
  from round_mitad_par_cotas [OF this]
  have "0 \<le> round_mitad_par (x * 100)" "round_mitad_par (x * 100) \<le> 10000" by simp_all
  then have a: "(0 :: rat) \<le> of_int (round_mitad_par (x * 100))"
    and b: "(of_int (round_mitad_par (x * 100)) :: rat) \<le> 10000"
    by simp_all
  from a b show ?thesis by (simp add: round2_def)
qed

lemma porcentaje_cotas:
  assumes "k \<le> n" and "0 < n"
  shows "0 \<le> ((of_nat n - of_nat k) / of_nat n) * (100 :: rat)"
    and "((of_nat n - of_nat k) / of_nat n) * (100 :: rat) \<le> 100"
proof -
  have n: "(0 :: rat) < of_nat n" using assms(2) by simp
  have k: "(of_nat k :: rat) \<le> of_nat n" using assms(1) by simp
  then have d: "(0 :: rat) \<le> of_nat n - of_nat k" by simp
  with n show "0 \<le> ((of_nat n - of_nat k) / of_nat n) * (100 :: rat)" by simp
  define a :: rat where "a = (of_nat n - of_nat k) / of_nat n"
  have "a \<le> 1"
    using n by (simp add: a_def divide_le_eq_1)
  then have "a * 100 \<le> 1 * 100" by (rule mult_right_mono) simp
  then show "((of_nat n - of_nat k) / of_nat n) * (100 :: rat) \<le> 100"
    unfolding a_def by simp
qed

lemma sum_list_cota:
  "(\<And>x. x \<in> set xs \<Longrightarrow> f x \<le> (n :: nat)) \<Longrightarrow> sum_list (map f xs) \<le> length xs * n"
  by (induction xs) (auto simp: add_le_mono)

text \<open>
  There are no more missing cells than cells, no more marked rows than rows, and a
  column scores at most 3.
\<close>

lemma nulas_cota:
  "sum_list (map (\<lambda>c. length (filter isnull (serie df (fst c)))) (columnas df))
     \<le> length (filas df) * length (columnas df)"
proof -
  have "length (filter isnull (serie df c)) \<le> length (filas df)" for c
    using length_filter_le [of isnull "serie df c"] by (simp add: serie_def)
  then have "sum_list (map (\<lambda>c. length (filter isnull (serie df (fst c)))) (columnas df))
     \<le> length (columnas df) * length (filas df)"
    by (intro sum_list_cota) simp
  then show ?thesis by (simp add: mult.commute)
qed

lemma length_marcar_primero: "length (marcar_primero vistos ks) = length ks"
  by (induction ks arbitrary: vistos) auto

lemma duplicados_cota: "contar (duplicated_df df) \<le> length (filas df)"
proof -
  have "contar (duplicated_df df) \<le> length (duplicated_df df)"
    by (simp add: contar_def)
  also have "\<dots> \<le> length (filas df)"
    by (simp add: duplicated_df_def length_marcar_primero)
  finally show ?thesis .
qed

lemma col_puntuacion_cota: "col_puntuacion df ct \<le> 3"
  by (simp add: col_puntuacion_def Let_def)

lemma precision_cotas:
  "0 \<le> calcular_precision_datos df \<and> calcular_precision_datos df \<le> 100"
proof (cases "length (columnas df) = 0")
  case True
  then show ?thesis by (simp add: calcular_precision_datos_def)
next
  case False
  let ?p = "sum_list (map (col_puntuacion df) (columnas df))"
  let ?n = "length (columnas df) * 3"
  have "?p \<le> ?n" by (intro sum_list_cota) (simp add: col_puntuacion_cota)
  then have le: "(of_nat ?p :: rat) \<le> of_nat ?n" by (simp only: of_nat_le_iff)
  have pos: "(0 :: rat) < of_nat ?n" using False by simp
  have "(of_nat ?p :: rat) / of_nat ?n \<le> 1"
    using le pos by (simp only: divide_le_eq_1) simp
  moreover have "(0 :: rat) \<le> of_nat ?p / of_nat ?n" by simp
  ultimately have "0 \<le> (of_nat ?p / of_nat ?n) * (100 :: rat)"
    and "(of_nat ?p / of_nat ?n) * (100 :: rat) \<le> 100" by simp_all
  with False show ?thesis by (simp add: calcular_precision_datos_def Let_def)
qed

text \<open>
  C4. For every record set the three scores of the quality scorer lie between 0 and
  100. For a record set that is not empty, completeness is the share of cells that are
  not missing times 100 (0 for a frame without cells), consistency is the share of rows
  that repeat no earlier row times 100, and precision is the sum of the per-column
  scores, each at most 3, over three times the number of columns, times 100 (0 for a
  frame without columns); each is rounded to two decimals.
\<close>

theorem C4_metricas_en_rango:
  "0 \<le> completitud (calcular_metricas_calidad datos)
   \<and> completitud (calcular_metricas_calidad datos) \<le> 100
   \<and> 0 \<le> consistencia (calcular_metricas_calidad datos)
   \<and> consistencia (calcular_metricas_calidad datos) \<le> 100
   \<and> 0 \<le> precision (calcular_metricas_calidad datos)
   \<and> precision (calcular_metricas_calidad datos) \<le> 100
   \<and> (datos \<noteq> [] \<longrightarrow>
        completitud (calcular_metricas_calidad datos)
          = round2 (if 0 < length (filas (DataFrame datos)) * length (columnas (DataFrame datos))
                    then ((of_nat (length (filas (DataFrame datos)) * length (columnas (DataFrame datos)))
                           - of_nat (sum_list (map (\<lambda>c. length (filter isnull (serie (DataFrame datos) (fst c))))
                                                 (columnas (DataFrame datos)))))
                          / of_nat (length (filas (DataFrame datos)) * length (columnas (DataFrame datos))))
                         * 100
                    else 0)
        \<and> consistencia (calcular_metricas_calidad datos)
          = round2 (((of_nat (length datos) - of_nat (contar (duplicated_df (DataFrame datos))))
                     / of_nat (length datos)) * 100)
        \<and> precision (calcular_metricas_calidad datos)
          = round2 (if columnas (DataFrame datos) = [] then 0
                    else (of_nat (sum_list (map (col_puntuacion (DataFrame datos)) (columnas (DataFrame datos))))
                          / of_nat (length (columnas (DataFrame datos)) * 3)) * 100)
        \<and> list_all (\<lambda>ct. col_puntuacion (DataFrame datos) ct \<le> 3) (columnas (DataFrame datos)))"
proof (cases "datos = []")
  case True
  then show ?thesis by (simp add: calcular_metricas_calidad_def)
next
  case False
  let ?df = "DataFrame datos"
  let ?tc = "length (filas ?df) * length (columnas ?df)"
  let ?nu = "sum_list (map (\<lambda>c. length (filter isnull (serie ?df (fst c)))) (columnas ?df))"
  let ?c = "if 0 < ?tc then ((of_nat ?tc - of_nat ?nu) / of_nat ?tc) * (100 :: rat) else 0"
  let ?t = "length (filas ?df)"
  let ?du = "contar (duplicated_df ?df)"
  let ?k = "if 0 < ?t then ((of_nat ?t - of_nat ?du) / of_nat ?t) * (100 :: rat) else 0"
  have t: "?t = length datos" by (simp add: DataFrame_def Let_def)
  have tpos: "0 < ?t" using False by (simp add: t)
  have c: "0 \<le> ?c \<and> ?c \<le> 100"
    using porcentaje_cotas [OF nulas_cota [of ?df]] by simp
  have k: "0 \<le> ?k \<and> ?k \<le> 100"
    using porcentaje_cotas [OF duplicados_cota [of ?df]] by simp
  have rc: "0 \<le> round2 ?c \<and> round2 ?c \<le> 100"
    using c by (intro round2_cotas) simp_all
  have rk: "0 \<le> round2 ?k \<and> round2 ?k \<le> 100"
    using k by (intro round2_cotas) simp_all
  have rp: "0 \<le> round2 (calcular_precision_datos ?df)
            \<and> round2 (calcular_precision_datos ?df) \<le> 100"
    using precision_cotas [of ?df] by (intro round2_cotas) simp_all
  have ec: "completitud (calcular_metricas_calidad datos) = round2 ?c"
    using False by (simp add: calcular_metricas_calidad_def Let_def)
  have ek: "consistencia (calcular_metricas_calidad datos) = round2 ?k"
    using False by (simp add: calcular_metricas_calidad_def Let_def)
  have ep: "precision (calcular_metricas_calidad datos)
                   = round2 (calcular_precision_datos ?df)"
    using False by (simp add: calcular_metricas_calidad_def Let_def)
  have k': "?k = ((of_nat (length datos) - of_nat ?du) / of_nat (length datos)) * 100"
    using tpos by (simp only: t if_True)
  have p': "calcular_precision_datos ?df
              = (if columnas ?df = [] then 0
                 else (of_nat (sum_list (map (col_puntuacion ?df) (columnas ?df)))
                       / of_nat (length (columnas ?df) * 3)) * 100)"
    by (simp add: calcular_precision_datos_def Let_def)
  have l: "list_all (\<lambda>ct. col_puntuacion ?df ct \<le> 3) (columnas ?df)"
    by (simp add: list_all_iff col_puntuacion_cota)
  from rc rk rp l show ?thesis
    unfolding ec ek ep k' p' by (simp only: simp_thms)
qed

lemma metricas_escenario:
  "calcular_metricas_calidad datos_escenario
     = \<lparr>completitud = 8333 / 100, consistencia = 6667 / 100, precision = 8333 / 100,
        total_registros = 3, registros_duplicados = Some 1, celdas_nulas = Some 1\<rparr>"
  by code_simp

theorem C4_metricas_en_rango_witness:
  "completitud (calcular_metricas_calidad datos_escenario) = 8333 / 100
   \<and> consistencia (calcular_metricas_calidad datos_escenario) = 6667 / 100
   \<and> precision (calcular_metricas_calidad datos_escenario) = 8333 / 100
   \<and> 0 \<le> completitud (calcular_metricas_calidad datos_escenario)
   \<and> completitud (calcular_metricas_calidad datos_escenario) \<le> 100
   \<and> list_all (\<lambda>ct. col_puntuacion (DataFrame datos_escenario) ct \<le> 3)
        (columnas (DataFrame datos_escenario))"
proof -
  have "datos_escenario \<noteq> []" by (simp add: datos_escenario_def)
  with C4_metricas_en_rango [of datos_escenario]
  have "0 \<le> completitud (calcular_metricas_calidad datos_escenario)
   \<and> completitud (calcular_metricas_calidad datos_escenario) \<le> 100
   \<and> list_all (\<lambda>ct. col_puntuacion (DataFrame datos_escenario) ct \<le> 3)
        (columnas (DataFrame datos_escenario))"
    by blast
  then show ?thesis by (simp add: metricas_escenario)
qed

text \<open>
  Each policy of the duplicate stage leaves rows whose keys differ pairwise, and marks
  nothing in a list of keys that differ pairwise.
\<close>

lemma conservar_simps:
  "conservar [] xs = []"
  "conservar ms [] = []"
  "conservar (m # ms) (x # xs) = (if m then conservar ms xs else x # conservar ms xs)"
  by (simp_all add: conservar_def)

lemma conservar_ninguno: "conservar (replicate (length xs) False) xs = xs"
  by (induction xs) (simp_all add: conservar_simps)

lemma conservar_map: "conservar (map h xs) xs = filter (\<lambda>x. \<not> h x) xs"
  by (induction xs) (simp_all add: conservar_simps)

lemma conservar_rev:
  "length ms = length xs \<Longrightarrow> conservar (rev ms) (rev xs) = rev (conservar ms xs)"
  by (simp add: conservar_def zip_rev rev_filter rev_map)

lemma primero_claves_distintas:
  "distinct (map f (conservar (marcar_primero vistos (map f xs)) xs))
   \<and> f ` set (conservar (marcar_primero vistos (map f xs)) xs) \<inter> set vistos = {}"
proof (induction xs arbitrary: vistos)
  case Nil
  then show ?case by (simp add: conservar_simps)
next
  case (Cons x xs)
  show ?case
  proof (cases "f x \<in> set vistos")
    case True
    with Cons.IH [of vistos] show ?thesis by (simp add: conservar_simps)
  next
    case False
    with Cons.IH [of "f x # vistos"] show ?thesis by (auto simp add: conservar_simps)
  qed
qed

lemma primero_sin_repetidos:
  "distinct ks \<Longrightarrow> set ks \<inter> set vistos = {} \<Longrightarrow>
   marcar_primero vistos ks = replicate (length ks) False"
  by (induction ks arbitrary: vistos) auto

lemma ultimo_sin_repetidos:
  "distinct ks \<Longrightarrow> marcar_ultimo ks = replicate (length ks) False"
  by (simp add: marcar_ultimo_def primero_sin_repetidos)

lemma todos_sin_repetidos:
  assumes "distinct ks"
  shows "marcar_todos ks = replicate (length ks) False"
proof -
  have "\<not> 1 < length (filter (\<lambda>j. j = k) ks)" for k
  proof -
    have "distinct (filter (\<lambda>j. j = k) ks)" using assms by simp
    moreover have "set (filter (\<lambda>j. j = k) ks) \<subseteq> {k}" by auto
    ultimately have "length (filter (\<lambda>j. j = k) ks) \<le> card {k}"
      by (metis card_mono distinct_card finite.emptyI finite.insertI)
    then show ?thesis by simp
  qed
  then show ?thesis
    by (simp add: marcar_todos_def map_replicate_const [symmetric] del: map_replicate_const)
qed

lemma ultimo_claves_distintas:
  "distinct (map f (conservar (marcar_ultimo (map f xs)) xs))"
proof -
  have "conservar (marcar_ultimo (map f xs)) xs
          = rev (conservar (marcar_primero [] (map f (rev xs))) (rev xs))"
    using conservar_rev [of "marcar_primero [] (map f (rev xs))" "rev xs"]
    by (simp add: marcar_ultimo_def rev_map length_marcar_primero)
  then show ?thesis
    using primero_claves_distintas [of f "[]" "rev xs"] by (simp add: rev_map [symmetric])
qed

lemma pocas_veces_distintas:
  "(\<And>x. x \<in> set xs \<Longrightarrow> length (filter (\<lambda>j. j = f x) (map f xs)) \<le> 1) \<Longrightarrow>
   distinct (map f xs)"
proof (induction xs)
  case Nil
  then show ?case by simp
next
  case (Cons x xs)
  from Cons.prems [of x] have "length (filter (\<lambda>j. j = f x) (map f xs)) = 0" by simp
  then have nx: "f x \<notin> set (map f xs)" by (auto simp: filter_empty_conv)
  have "length (filter (\<lambda>j. j = f y) (map f xs)) \<le> 1" if "y \<in> set xs" for y
    using Cons.prems [of y] that by (simp split: if_splits)
  from Cons.IH [OF this] nx show ?case by simp
qed

lemma todos_claves_distintas:
  "distinct (map f (conservar (marcar_todos (map f xs)) xs))"
proof -
  let ?P = "\<lambda>x. \<not> 1 < length (filter (\<lambda>j. j = f x) (map f xs))"
  have c: "conservar (marcar_todos (map f xs)) xs = filter ?P xs"
    using conservar_map [of "\<lambda>x. 1 < length (filter (\<lambda>j. j = f x) (map f xs))" xs]
    by (simp add: marcar_todos_def comp_def)
  have "length (filter (\<lambda>j. j = f y) (map f (filter ?P xs))) \<le> 1" if "y \<in> set (filter ?P xs)" for y
  proof -
    have "length (filter (\<lambda>j. j = f y) (map f (filter ?P xs)))
            = length (filter (\<lambda>x. ?P x) (filter (\<lambda>x. f x = f y) xs))"
      by (simp add: filter_map comp_def conj_commute)
    also have "\<dots> \<le> length (filter (\<lambda>x. f x = f y) xs)" by (rule length_filter_le)
    also have "\<dots> = length (filter (\<lambda>j. j = f y) (map f xs))"
      by (simp add: filter_map comp_def)
    also have "\<dots> \<le> 1" using that by simp
    finally show ?thesis .
  qed
  then have "distinct (map f (filter ?P xs))" by (rule pocas_veces_distintas)
  with c show ?thesis by simp
qed

text \<open>
  The columns of a frame are the keys of its records in order of first appearance; a
  frame built from rows that hold every column, in order and without a missing value,
  has those rows.
\<close>

lemma unicos_set: "set (unicos vistos xs) = set xs - set vistos \<and> distinct (unicos vistos xs)"
  by (induction xs arbitrary: vistos) auto

lemma unicos_vistos_cong: "set v1 = set v2 \<Longrightarrow> unicos v1 xs = unicos v2 xs"
proof (induction xs arbitrary: v1 v2)
  case Nil
  then show ?case by simp
next
  case (Cons x xs)
  from Cons.prems have "set (x # v1) = set (x # v2)" by simp
  from Cons.IH [OF this] Cons.IH [OF Cons.prems] Cons.prems show ?case by simp
qed

lemma unicos_ya_vistos: "set xs \<subseteq> set vistos \<Longrightarrow> unicos vistos xs = []"
  by (induction xs arbitrary: vistos) auto

lemma unicos_nuevos:
  "distinct xs \<Longrightarrow> set xs \<inter> set vistos = {} \<Longrightarrow> unicos vistos xs = xs"
  by (induction xs arbitrary: vistos) auto

lemma unicos_append:
  "unicos vistos (xs @ ys) = unicos vistos xs @ unicos (xs @ vistos) ys"
proof (induction xs arbitrary: vistos)
  case Nil
  then show ?case by simp
next
  case (Cons x xs)
  show ?case
  proof (cases "x \<in> set vistos")
    case True
    then have "set ((x # xs) @ vistos) = set (xs @ vistos)" by auto
    from unicos_vistos_cong [OF this] True Cons.IH [of vistos] show ?thesis by simp
  next
    case False
    have "set ((x # xs) @ vistos) = set (xs @ x # vistos)" by auto
    from unicos_vistos_cong [OF this] False Cons.IH [of "x # vistos"] show ?thesis by simp
  qed
qed

lemma claves_de_filas_completas:
  assumes "distinct ns" and "S \<noteq> []" and "\<And>r. r \<in> set S \<Longrightarrow> map fst r = ns"
  shows "claves S = ns"
proof -
  obtain r rs where S: "S = r # rs" using assms(2) by (cases S) auto
  have r: "map fst r = ns" using assms(3) S by simp
  have "set (concat (map (map fst) rs)) \<subseteq> set ns"
    using assms(3) S by auto
  then have "unicos (ns @ []) (concat (map (map fst) rs)) = []"
    by (intro unicos_ya_vistos) simp
  moreover have "unicos [] ns = ns" using assms(1) by (intro unicos_nuevos) simp_all
  ultimately show ?thesis
    by (simp add: claves_def S r unicos_append)
qed

lemma length_tipos:
  "length (map (\<lambda>c. inferir_dtype (map (\<lambda>r. celda r c) datos)) cols) = length cols"
  by simp

lemma nombres_DataFrame: "nombres (DataFrame datos) = claves datos"
  by (simp add: nombres_def DataFrame_def Let_def)

lemma filas_DataFrame_fst:
  "r \<in> set (filas (DataFrame datos)) \<Longrightarrow> map fst r = claves datos"
  by (auto simp add: DataFrame_def Let_def comp_def case_prod_unfold)

lemma celda_de_fila:
  assumes "distinct (map fst r)" and "(c, v) \<in> set r"
  shows "celda r c = v"
  using assms by (simp add: celda_def)

lemma fila_reconstruida:
  assumes d: "distinct (map fst r)"
    and n: "\<And>c v. (c, v) \<in> set r \<Longrightarrow> \<not> isnull v"
    and l: "length ts = length r"
  shows "map (\<lambda>(c, t). (c, convertir t (celda r c))) (zip (map fst r) ts) = r"
proof (rule nth_equalityI)
  show "length (map (\<lambda>(c, t). (c, convertir t (celda r c))) (zip (map fst r) ts)) = length r"
    using l by simp
next
  fix i
  assume "i < length (map (\<lambda>(c, t). (c, convertir t (celda r c))) (zip (map fst r) ts))"
  then have i: "i < length r" using l by simp
  obtain c v where cv: "r ! i = (c, v)" by (cases "r ! i")
  with i have m: "(c, v) \<in> set r" by (metis nth_mem)
  from celda_de_fila [OF d m] have ce: "celda r c = v" .
  from n [OF m] have "v \<noteq> Nulo" by auto
  then have "convertir (ts ! i) v = v" by (simp add: convertir_def)
  with i l cv ce
  show "map (\<lambda>(c, t). (c, convertir t (celda r c))) (zip (map fst r) ts) ! i = r ! i"
    by simp
qed

lemma DataFrame_de_filas_limpias:
  assumes d: "distinct ns" and s: "S \<noteq> []"
    and f: "\<And>r. r \<in> set S \<Longrightarrow> map fst r = ns"
    and n: "\<And>r c v. r \<in> set S \<Longrightarrow> (c, v) \<in> set r \<Longrightarrow> \<not> isnull v"
  shows "nombres (DataFrame S) = ns \<and> filas (DataFrame S) = S"
proof -
  have c: "claves S = ns" by (rule claves_de_filas_completas [OF d s f])
  let ?ts = "map (\<lambda>c. inferir_dtype (map (\<lambda>r. celda r c) S)) ns"
  have "map (\<lambda>(c, t). (c, convertir t (celda r c))) (zip ns ?ts) = r" if r: "r \<in> set S" for r
  proof -
    have "map (\<lambda>(c, t). (c, convertir t (celda r c))) (zip (map fst r) ?ts) = r"
    proof (rule fila_reconstruida)
      show "distinct (map fst r)" using d f [OF r] by simp
      show "\<not> isnull v" if "(c, v) \<in> set r" for c v using n [OF r that] .
      show "length ?ts = length r" using f [OF r] by (metis length_map)
    qed
    then show ?thesis using f [OF r] by simp
  qed
  then have "map (\<lambda>r. map (\<lambda>(c, t). (c, convertir t (celda r c))) (zip ns ?ts)) S = S"
    by (simp add: map_idI)
  then show ?thesis
    by (simp add: nombres_DataFrame c) (simp add: DataFrame_def Let_def c)
qed

text \<open>
  The stages \<open>dropna\<close> and \<open>manejar_duplicados\<close> keep the columns and select rows; run
  again on their own output they change nothing.
\<close>

lemma dropna_columnas: "columnas (dropna df) = columnas df"
  by (simp add: dropna_def filtrar_filas_def)

lemma dropna_filas:
  "r \<in> set (filas (dropna df)) \<Longrightarrow>
   r \<in> set (filas df) \<and> (\<forall>c \<in> set (nombres df). \<not> isnull (celda r c))"
  by (auto simp add: dropna_def filtrar_filas_def list_ex_iff)

lemma dropna_sin_nulos:
  assumes "\<And>r c. r \<in> set (filas df) \<Longrightarrow> c \<in> set (nombres df) \<Longrightarrow> \<not> isnull (celda r c)"
  shows "dropna df = df"
proof -
  have "filter (\<lambda>r. \<not> list_ex (\<lambda>c. isnull (celda r c)) (nombres df)) (filas df) = filas df"
    using assms by (auto simp add: filter_id_conv list_ex_iff)
  then show ?thesis by (simp add: dropna_def filtrar_filas_def)
qed

lemma conservar_subset: "set (conservar ms xs) \<subseteq> set xs"
  by (auto simp add: conservar_def dest: set_zip_rightD)

lemma en_columnas_nombres: "en_columnas df = (\<lambda>c. c \<in> set (nombres df))"
  by (rule ext) (simp add: en_columnas_def nombres_def)

lemma columnas_clave_nombres:
  "nombres df2 = nombres df1 \<Longrightarrow> columnas_clave df2 sub = columnas_clave df1 sub"
  by (simp add: columnas_clave_def en_columnas_nombres split: option.splits)

lemma manejar_duplicados_forma:
  assumes "manejar_duplicados cfg df = Inr df'"
  shows "columnas df' = columnas df \<and> set (filas df') \<subseteq> set (filas df)"
proof (cases "empty_df df")
  case True
  with assms show ?thesis by (simp add: manejar_duplicados_def)
next
  case False
  with assms obtain cs where cs: "columnas_clave df (subset (manejo_duplicados cfg)) = Inr cs"
    by (auto simp add: manejar_duplicados_def Let_def split: sum.splits)
  from assms False cs show ?thesis
    by (auto simp add: manejar_duplicados_def Let_def split: if_splits
        dest: subsetD [OF conservar_subset])
qed

lemma manejar_duplicados_estable:
  assumes r: "manejar_duplicados cfg df = Inr df'"
    and n: "nombres df2 = nombres df"
    and f: "filas df2 = filas df'"
  shows "manejar_duplicados cfg df2 = Inr df2"
proof (cases "empty_df df2")
  case True
  then show ?thesis by (simp add: manejar_duplicados_def)
next
  case ne2: False
  have ne: "\<not> empty_df df"
  proof
    assume e: "empty_df df"
    with r have "df' = df" by (simp add: manejar_duplicados_def)
    with e f n ne2 show False by (auto simp add: empty_df_def nombres_def)
  qed
  with r obtain cs where cs: "columnas_clave df (subset (manejo_duplicados cfg)) = Inr cs"
    by (auto simp add: manejar_duplicados_def Let_def split: sum.splits)
  have cs2: "columnas_clave df2 (subset (manejo_duplicados cfg)) = Inr cs"
    using columnas_clave_nombres [OF n] cs by simp
  have same: "df2\<lparr>filas := filas df2\<rparr> = df2" by simp
  consider (p) "mantener (manejo_duplicados cfg) = ''primero''"
    | (u) "mantener (manejo_duplicados cfg) = ''ultimo''"
    | (t) "mantener (manejo_duplicados cfg) = ''ninguno''"
    | (o) "mantener (manejo_duplicados cfg) \<noteq> ''primero''"
          "mantener (manejo_duplicados cfg) \<noteq> ''ultimo''"
          "mantener (manejo_duplicados cfg) \<noteq> ''ninguno''"
    by blast
  then show ?thesis
  proof cases
    case p
    with r ne cs have "filas df' = conservar (marcar_primero [] (map (clave_fila cs) (filas df))) (filas df)"
      by (auto simp add: manejar_duplicados_def Let_def)
    with primero_claves_distintas [of "clave_fila cs" "[]" "filas df"] f
    have "distinct (map (clave_fila cs) (filas df2))" by simp
    then have "marcar_primero [] (map (clave_fila cs) (filas df2))
                 = replicate (length (filas df2)) False"
      using primero_sin_repetidos [of "map (clave_fila cs) (filas df2)" "[]"] by simp
    with p ne2 cs2 same show ?thesis
      by (simp add: manejar_duplicados_def Let_def conservar_ninguno)
  next
    case u
    with r ne cs have "filas df' = conservar (marcar_ultimo (map (clave_fila cs) (filas df))) (filas df)"
      by (auto simp add: manejar_duplicados_def Let_def)
    with ultimo_claves_distintas [of "clave_fila cs" "filas df"] f
    have "distinct (map (clave_fila cs) (filas df2))" by simp
    then have "marcar_ultimo (map (clave_fila cs) (filas df2))
                 = replicate (length (filas df2)) False"
      using ultimo_sin_repetidos [of "map (clave_fila cs) (filas df2)"] by simp
    with u ne2 cs2 same show ?thesis
      by (simp add: manejar_duplicados_def Let_def conservar_ninguno)
  next
    case t
    with r ne cs have "filas df' = conservar (marcar_todos (map (clave_fila cs) (filas df))) (filas df)"
      by (auto simp add: manejar_duplicados_def Let_def)
    with todos_claves_distintas [of "clave_fila cs" "filas df"] f
    have "distinct (map (clave_fila cs) (filas df2))" by simp
    then have "marcar_todos (map (clave_fila cs) (filas df2))
                 = replicate (length (filas df2)) False"
      using todos_sin_repetidos [of "map (clave_fila cs) (filas df2)"] by simp
    with t ne2 cs2 same show ?thesis
      by (simp add: manejar_duplicados_def Let_def conservar_ninguno)
  next
    case o
    with ne2 cs2 show ?thesis by (simp add: manejar_duplicados_def Let_def)
  qed
qed

text \<open>
  An output of the transformer need not be a fixed point of it. With the strategy
  \<open>marcar\<close> the output of one application gets a new field \<open>a_es_nulo_es_nulo\<close> from
  the next. With the default configuration (IQR outliers enabled) the values 1, 12, 18,
  19, 20 lose 1 in the first application and, the quartiles being taken again on what is
  left, 12 in the second. Text normalisation strips before it drops what is not ASCII, so
  a sharp s before a space leaves a leading space that the next application strips. Rule
  validation reads the dtype of each column again: a column that held a number and a
  string is not checked against its range, and is once the row with the string is gone.
  Imputation by the mean skips a column that holds a string, and fills it once the
  duplicate handling has removed the row with the string.
\<close>

lemma salida_no_es_punto_fijo:
  "transformar_limpieza biblioteca_sin_fechas config_marcar datos_un_valor
     = Inr [[(''a'', Num 1), (''a_es_nulo'', Booleano False)]]
   \<and> transformar_limpieza biblioteca_sin_fechas config_marcar
       [[(''a'', Num 1), (''a_es_nulo'', Booleano False)]]
     = Inr [[(''a'', Num 1), (''a_es_nulo'', Booleano False),
             (''a_es_nulo_es_nulo'', Booleano False)]]
   \<and> transformar_limpieza biblioteca_sin_fechas configuracion_default datos_cuartiles
     = Inr [[(''v'', Num 12)], [(''v'', Num 18)], [(''v'', Num 19)], [(''v'', Num 20)]]
   \<and> transformar_limpieza biblioteca_sin_fechas configuracion_default
       [[(''v'', Num 12)], [(''v'', Num 18)], [(''v'', Num 19)], [(''v'', Num 20)]]
     = Inr [[(''v'', Num 18)], [(''v'', Num 19)], [(''v'', Num 20)]]
   \<and> transformar_limpieza biblioteca_sin_fechas configuracion_default datos_eszett
     = Inr [[(''t'', Texto '' a'')]]
   \<and> transformar_limpieza biblioteca_sin_fechas configuracion_default [[(''t'', Texto '' a'')]]
     = Inr [[(''t'', Texto ''a'')]]
   \<and> transformar_limpieza biblioteca_sin_fechas config_reglas datos_mixtos
     = Inr [[(''a'', Num 1), (''b'', Texto ''k'')]]
   \<and> transformar_limpieza biblioteca_sin_fechas config_reglas
       [[(''a'', Num 1), (''b'', Texto ''k'')]]
     = Inr []
   \<and> transformar_limpieza biblioteca_sin_fechas config_imputar datos_imputar
     = Inr [[(''a'', Num 1), (''b'', Texto ''p'')], [(''a'', Nulo), (''b'', Texto ''q'')]]
   \<and> transformar_limpieza biblioteca_sin_fechas config_imputar
       [[(''a'', Num 1), (''b'', Texto ''p'')], [(''a'', Nulo), (''b'', Texto ''q'')]]
     = Inr [[(''a'', Num 1), (''b'', Texto ''p'')], [(''a'', Num 1), (''b'', Texto ''q'')]]"
  by code_simp

text \<open>
  With the null strategy \<open>eliminar\<close> and text normalisation, date normalisation, outlier
  handling and rule validation disabled (duplicate handling on or off, with any policy
  and key), every output of the transformer is a fixed point of it.
\<close>

lemma salida_eliminar_es_punto_fijo:
  assumes e: "estrategia (manejo_nulos cfg) = ''eliminar''"
    and t: "\<not> txt_habilitada (normalizacion_texto cfg)"
    and fe: "\<not> fec_habilitada (normalizacion_fechas cfg)"
    and ou: "\<not> out_habilitado (manejo_outliers cfg)"
    and va: "\<not> val_habilitada (validacion_datos cfg)"
    and r: "transformar_limpieza bib cfg datos = Inr S"
  shows "transformar_limpieza bib cfg S = Inr S"
proof -
  from r obtain ok where v: "validar_configuracion_limpieza cfg = Inr ok"
    by (auto simp add: transformar_limpieza_def split: sum.splits)
  have ap: "aplicar_limpieza bib cfg df
              = (if dup_habilitado (manejo_duplicados cfg)
                 then manejar_duplicados cfg (dropna df) else Inr (dropna df))" for df
    using e t fe ou va
    by (simp add: aplicar_limpieza_def manejar_valores_nulos_def Let_def split: sum.splits)
  show ?thesis
  proof (cases "S = []")
    case True
    with v show ?thesis by (simp add: transformar_limpieza_def)
  next
    case False
    with r v have d: "datos \<noteq> []"
      by (auto simp add: transformar_limpieza_def split: if_splits)
    let ?df1 = "dropna (DataFrame datos)"
    from r v d obtain df4 where
      a4: "aplicar_limpieza bib cfg (DataFrame datos) = Inr df4" and s4: "S = to_dict_records df4"
      by (auto simp add: transformar_limpieza_def split: sum.splits)
    from s4 False have c4: "columnas df4 \<noteq> []" and f4: "filas df4 = S"
      by (auto simp add: to_dict_records_def split: if_splits)
    have forma: "columnas df4 = columnas ?df1 \<and> set (filas df4) \<subseteq> set (filas ?df1)"
    proof (cases "dup_habilitado (manejo_duplicados cfg)")
      case True
      with a4 ap have "manejar_duplicados cfg ?df1 = Inr df4" by simp
      then show ?thesis by (rule manejar_duplicados_forma)
    next
      case False
      with a4 ap show ?thesis by simp
    qed
    let ?ns = "claves datos"
    have n4: "nombres df4 = ?ns"
      using forma by (simp add: nombres_def dropna_columnas nombres_DataFrame [unfolded nombres_def])
    have dn: "distinct ?ns" by (simp add: claves_def unicos_set)
    have fst_S: "map fst x = ?ns" if "x \<in> set S" for x
    proof -
      from that forma f4 have "x \<in> set (filas ?df1)" by auto
      from dropna_filas [OF this] show ?thesis by (simp add: filas_DataFrame_fst)
    qed
    have nn_S: "\<not> isnull w" if x: "x \<in> set S" and cw: "(c, w) \<in> set x" for x c w
    proof -
      from x forma f4 have "x \<in> set (filas ?df1)" by auto
      from dropna_filas [OF this]
      have nn: "\<forall>c \<in> set (nombres (DataFrame datos)). \<not> isnull (celda x c)" by simp
      from cw have "c \<in> set (map fst x)" by force
      with fst_S [OF x] have cn: "c \<in> set (nombres (DataFrame datos))"
        by (simp add: nombres_DataFrame)
      have "distinct (map fst x)" using fst_S [OF x] dn by simp
      from celda_de_fila [OF this cw] nn cn show ?thesis by auto
    qed
    from DataFrame_de_filas_limpias [OF dn False fst_S nn_S]
    have nS: "nombres (DataFrame S) = ?ns" and fS: "filas (DataFrame S) = S" by simp_all
    have dS: "dropna (DataFrame S) = DataFrame S"
    proof (rule dropna_sin_nulos)
      fix x c
      assume x: "x \<in> set (filas (DataFrame S))" and c: "c \<in> set (nombres (DataFrame S))"
      from x fS have xS: "x \<in> set S" by simp
      from c nS fst_S [OF xS] have "c \<in> set (map fst x)" by simp
      then obtain w where cw: "(c, w) \<in> set x" by force
      have "distinct (map fst x)" using fst_S [OF xS] dn by simp
      from celda_de_fila [OF this cw] nn_S [OF xS cw] show "\<not> isnull (celda x c)" by simp
    qed
    have cS: "columnas (DataFrame S) \<noteq> []"
      using nS n4 c4 by (auto simp add: nombres_def)
    have "aplicar_limpieza bib cfg (DataFrame S) = Inr (DataFrame S)"
    proof (cases "dup_habilitado (manejo_duplicados cfg)")
      case True
      with a4 ap have m: "manejar_duplicados cfg ?df1 = Inr df4" by simp
      have "nombres (DataFrame S) = nombres ?df1"
        using nS by (simp add: nombres_def dropna_columnas nombres_DataFrame [unfolded nombres_def])
      from manejar_duplicados_estable [OF m this] fS f4
      have "manejar_duplicados cfg (DataFrame S) = Inr (DataFrame S)" by simp
      with True ap dS show ?thesis by simp
    next
      case False
      with ap dS show ?thesis by simp
    qed
    with v False cS fS show ?thesis
      by (simp add: transformar_limpieza_def to_dict_records_def)
  qed
qed

lemma escenario_es_punto_fijo:
  "transformar_limpieza biblioteca_sin_fechas config_solo_duplicados datos_escenario
     = Inr [[(''a'', Num 1), (''b'', Texto ''X'')]]
   \<and> transformar_limpieza biblioteca_sin_fechas config_solo_duplicados
       [[(''a'', Num 1), (''b'', Texto ''X'')]]
     = Inr [[(''a'', Num 1), (''b'', Texto ''X'')]]"
proof -
  have 1: "transformar_limpieza biblioteca_sin_fechas config_solo_duplicados datos_escenario
     = Inr [[(''a'', Num 1), (''b'', Texto ''X'')]]"
    by code_simp
  from salida_eliminar_es_punto_fijo [OF _ _ _ _ _ 1] 1 show ?thesis
    by (simp add: config_solo_duplicados_def)
qed



end
